theory Spec2Isabelle
  imports Main "HOL-Library.AList" "HOL-Library.Sublist" "HOL-Library.Char_ord"
    "HOL-Library.List_Lexorder"
begin

section \<open>Python values\<close>

text \<open>
  The configuration of \<^verbatim>\<open>curtin/commands/install.py\<close> is what YAML and JSON
  loading produce: \<^verbatim>\<open>None\<close>, booleans, integers, strings, lists and dictionaries
  with string keys. Floats are left out. A dictionary is an association list in insertion
  order; the dictionary it denotes is \<open>map_of\<close> of it (the first binding of a key is the
  binding), \<open>AList.update\<close> is item assignment and \<open>AList.delete\<close> is \<^verbatim>\<open>del\<close>.
  A string is a list of characters, a character is a code point below 256 (the Latin-1
  range of Python's \<^verbatim>\<open>str\<close>); text with other code points is not described. The
  classes of characters (digit, word character, whitespace, printable) are those of
  Python 3 on that range.
\<close>

datatype pyval =
    PNone
  | PBool bool
  | PInt int
  | PStr string
  | PList "pyval list"
  | PDict "(string \<times> pyval) list"

type_synonym pydict = "(string \<times> pyval) list"

text \<open>Truth value testing (\<^verbatim>\<open>if x:\<close>, \<^verbatim>\<open>not x\<close>).\<close>

fun truthy :: "pyval \<Rightarrow> bool" where
  "truthy PNone = False"
| "truthy (PBool b) = b"
| "truthy (PInt i) = (i \<noteq> 0)"
| "truthy (PStr s) = (s \<noteq> [])"
| "truthy (PList xs) = (xs \<noteq> [])"
| "truthy (PDict d) = (d \<noteq> [])"

text \<open>\<^verbatim>\<open>d.keys()\<close>: every key once.\<close>

definition keys :: "pydict \<Rightarrow> string list" where
  "keys d = remdups (map fst d)"

text \<open>
  \<^verbatim>\<open>==\<close> on these values: \<^verbatim>\<open>True == 1\<close> and \<^verbatim>\<open>False == 0\<close>, lists are
  compared element by element, dictionaries key by key whatever their order, values of
  different kinds are unequal.
\<close>

function (sequential) py_eq :: "pyval \<Rightarrow> pyval \<Rightarrow> bool" where
  "py_eq PNone PNone = True"
| "py_eq (PBool a) (PBool b) = (a = b)"
| "py_eq (PBool a) (PInt i) = (i = (if a then 1 else 0))"
| "py_eq (PInt i) (PBool a) = (i = (if a then 1 else 0))"
| "py_eq (PInt i) (PInt j) = (i = j)"
| "py_eq (PStr s) (PStr t) = (s = t)"
| "py_eq (PList xs) (PList ys) = list_all2 py_eq xs ys"
| "py_eq (PDict d) (PDict e) =
     (length (keys d) = length (keys e) \<and>
      list_all (\<lambda>k. case map_of d k of
                       None \<Rightarrow> False
                     | Some v \<Rightarrow> (case map_of e k of None \<Rightarrow> False | Some w \<Rightarrow> py_eq v w))
               (keys d))"
| "py_eq _ _ = False"
  by pat_completeness auto

termination py_eq
proof (relation "measure (\<lambda>(a, b). size a)", goal_cases)
  case 1
  show ?case by simp
next
  case (2 xs ys x y)
  then show ?case by (simp add: less_Suc_eq_le size_list_estimation')
next
  case (3 d e k v w)
  have "map_of d k = Some v \<Longrightarrow> size v < Suc (size_list (size_prod (\<lambda>_. 0) size) d)"
    by (induction d) (auto split: if_splits)
  with 3 show ?case by simp
qed

section \<open>Exceptions, results and log records\<close>

text \<open>
  Exceptions are values. The classes are the ones the module raises or lets through; the
  text of a message is not kept, the fields of \<^verbatim>\<open>util.ProcessExecutionError\<close> are
  (\<^verbatim>\<open>stdout\<close>, \<^verbatim>\<open>stderr\<close>, \<^verbatim>\<open>exit_code\<close>, \<^verbatim>\<open>cmd\<close>, \<^verbatim>\<open>reason\<close>).
  Python 3 is modelled: \<^verbatim>\<open>IOError\<close> is \<^verbatim>\<open>OSError\<close>. \<^verbatim>\<open>SystemExit\<close> and
  \<^verbatim>\<open>KeyboardInterrupt\<close> are not subclasses of \<^verbatim>\<open>Exception\<close>.
\<close>

datatype exn =
    ValueError
  | TypeError
  | AttributeError
  | IndexError
  | KeyError
  | OSError string
  | ProcessExecutionError "string option" "string option" "int option" pyval "exn option"
  | BadUsage
  | OtherException string
  | SystemExit int
  | KeyboardInterrupt

fun is_Exception :: "exn \<Rightarrow> bool" where
  "is_Exception (SystemExit _) = False"
| "is_Exception KeyboardInterrupt = False"
| "is_Exception _ = True"

fun is_OSError :: "exn \<Rightarrow> bool" where
  "is_OSError (OSError _) = True"
| "is_OSError _ = False"

datatype level = DEBUG | INFO | WARN | ERROR

text \<open>A call of \<^verbatim>\<open>LOG.<level>(fmt, *args)\<close>: the format string and its arguments.\<close>

datatype logrec = Log level string "pyval list"

section \<open>Proxy migration\<close>

text \<open>
  \<^verbatim>\<open>migrate_proxy_settings(cfg)\<close>. The function mutates \<^verbatim>\<open>cfg\<close>; the model returns
  the new configuration and the records logged.
\<close>

definition migrate_proxy_settings :: "pydict \<Rightarrow> exn + (pydict \<times> logrec list)" where
  "migrate_proxy_settings cfg =
     (case (case map_of cfg ''proxy'' of None \<Rightarrow> PDict [] | Some p \<Rightarrow> p) of
        PDict proxy \<Rightarrow>
          (case map_of cfg ''http_proxy'' of
             None \<Rightarrow> Inr (AList.update ''proxy'' (PDict proxy) cfg, [])
           | Some hp \<Rightarrow>
               (if truthy hp then
                  (if \<not> py_eq (case map_of proxy ''http_proxy'' of None \<Rightarrow> hp | Some y \<Rightarrow> y) hp
                   then
                     (case map_of proxy ''http_proxy'' of
                        None \<Rightarrow> Inl KeyError
                      | Some y \<Rightarrow>
                          Inr (AList.update ''proxy'' (PDict proxy) (AList.delete ''http_proxy'' cfg),
                               [Log WARN ''legacy http_proxy setting (%s) differs from proxy/http_proxy (%s), using %s''
                                  [hp, y, y]]))
                   else
                     Inr (AList.update ''proxy'' (PDict (AList.update ''http_proxy'' hp proxy))
                            (AList.delete ''http_proxy'' cfg),
                          [Log DEBUG ''legacy 'http_proxy' migrated to proxy/http_proxy'' []]))
                else
                  Inr (AList.update ''proxy'' (PDict proxy) (AList.delete ''http_proxy'' cfg), [])))
      | _ \<Rightarrow> Inl ValueError)"

text \<open>\<^verbatim>\<open>cfg.get('proxy', {}).get('http_proxy')\<close> of a configuration, read from outside.\<close>

definition proxy_http_proxy :: "pydict \<Rightarrow> pyval option" where
  "proxy_http_proxy cfg =
     (case map_of cfg ''proxy'' of Some (PDict p) \<Rightarrow> map_of p ''http_proxy'' | _ \<Rightarrow> None)"

fun is_dict :: "pyval \<Rightarrow> bool" where
  "is_dict (PDict _) = True"
| "is_dict _ = False"

fun is_warning :: "logrec \<Rightarrow> bool" where
  "is_warning (Log l _ _) = (l = WARN)"

section \<open>Strings of values\<close>

text \<open>
  \<^verbatim>\<open>str(x)\<close> and \<^verbatim>\<open>repr(x)\<close> on the values above: a string is itself
  under \<^verbatim>\<open>str\<close> and quoted under \<^verbatim>\<open>repr\<close> (single quotes, unless it holds a single
  quote and no double quote; a character that is not printable, which below 256 is a
  control character, the no-break space or the soft hyphen, is escaped), integers are
  printed in decimal, containers print the \<^verbatim>\<open>repr\<close> of their elements. A dictionary is
  printed from its list of bindings, each key standing once.
\<close>

definition is_digit :: "char \<Rightarrow> bool" where
  "is_digit c = (c \<in> set ''0123456789'')"

fun show_nat :: "nat \<Rightarrow> string" where
  "show_nat n =
     (if n < 10 then [''0123456789'' ! n]
      else show_nat (n div 10) @ [''0123456789'' ! (n mod 10)])"

declare show_nat.simps [simp del]

definition show_int :: "int \<Rightarrow> string" where
  "show_int i = (if i < 0 then CHR ''-'' # show_nat (nat (- i)) else show_nat (nat i))"

definition hex2 :: "nat \<Rightarrow> string" where
  "hex2 n = [''0123456789abcdef'' ! (n div 16 mod 16), ''0123456789abcdef'' ! (n mod 16)]"

definition repr_char :: "char \<Rightarrow> char \<Rightarrow> string" where
  "repr_char q c =
     (if c = q \<or> c = CHR 0x5C then [CHR 0x5C, c]
      else if c = CHR 0x0A then [CHR 0x5C, CHR ''n'']
      else if c = CHR 0x0D then [CHR 0x5C, CHR ''r'']
      else if c = CHR 0x09 then [CHR 0x5C, CHR ''t'']
      else if (of_char c :: nat) < 32 \<or> (127 \<le> (of_char c :: nat) \<and> (of_char c :: nat) \<le> 160)
              \<or> (of_char c :: nat) = 173
        then [CHR 0x5C, CHR ''x''] @ hex2 (of_char c)
      else [c])"

definition repr_str :: "string \<Rightarrow> string" where
  "repr_str s =
     (let q = (if CHR 0x27 \<in> set s \<and> CHR 0x22 \<notin> set s then CHR 0x22 else CHR 0x27)
      in [q] @ concat (map (repr_char q) s) @ [q])"

fun join :: "string \<Rightarrow> string list \<Rightarrow> string" where
  "join sep [] = []"
| "join sep [x] = x"
| "join sep (x # y # ys) = x @ sep @ join sep (y # ys)"

fun py_repr :: "pyval \<Rightarrow> string" where
  "py_repr PNone = ''None''"
| "py_repr (PBool b) = (if b then ''True'' else ''False'')"
| "py_repr (PInt i) = show_int i"
| "py_repr (PStr s) = repr_str s"
| "py_repr (PList xs) = ''['' @ join '', '' (map py_repr xs) @ '']''"
| "py_repr (PDict d) =
     ''{'' @ join '', '' (map (\<lambda>(k, v). repr_str k @ '': '' @ py_repr v) d) @ ''}''"

fun py_str :: "pyval \<Rightarrow> string" where
  "py_str (PStr s) = s"
| "py_str v = py_repr v"

section \<open>Power state\<close>

text \<open>
  \<^verbatim>\<open>load_power_state(pstate)\<close>. \<^verbatim>\<open>re.match(r"\+[0-9]+", s)\<close> matches at the start of
  \<open>s\<close> only: a plus sign and one digit decide it, whatever follows. \<^verbatim>\<open>mode not in
  opt_map\<close> raises \<^verbatim>\<open>TypeError\<close> of its own for an unhashable mode (a list or a
  dictionary). In the branch of the match, \<^verbatim>\<open>delay[1:]\<close> is taken of the value itself;
  only a string reaches it, since \<^verbatim>\<open>str\<close> of no other value begins with a plus sign.
\<close>

definition opt_map :: "(string \<times> string) list" where
  "opt_map = [(''halt'', ''-H''), (''poweroff'', ''-P''), (''reboot'', ''-r'')]"

definition match_plus_digits :: "string \<Rightarrow> bool" where
  "match_plus_digits s =
     (case s of c # d # _ \<Rightarrow> c = CHR ''+'' \<and> is_digit d | _ \<Rightarrow> False)"

definition shcmd :: string where
  "shcmd = ''sleep \"$1\" && shift; [ -f /run/block-curtin-poweroff ] && exit 0; exec \"$@\"''"

definition resolve_delay :: "pyval \<Rightarrow> exn + string" where
  "resolve_delay delay =
     (if py_eq delay (PStr ''now'') then Inr ''0''
      else if match_plus_digits (py_str delay) then
        (case delay of PStr s \<Rightarrow> Inr (drop 1 s @ ''m'') | _ \<Rightarrow> Inl TypeError)
      else Inr (py_str delay))"

definition load_power_state :: "pyval \<Rightarrow> exn + pyval list option" where
  "load_power_state pstate =
     (case pstate of
        PNone \<Rightarrow> Inr None
      | PDict d \<Rightarrow>
          (case (case map_of d ''mode'' of None \<Rightarrow> PNone | Some m \<Rightarrow> m) of
             PStr mode \<Rightarrow>
               (case map_of opt_map mode of
                  None \<Rightarrow> Inl TypeError
                | Some opt \<Rightarrow>
                    (case resolve_delay (case map_of d ''delay'' of None \<Rightarrow> PStr ''5'' | Some v \<Rightarrow> v) of
                       Inl e \<Rightarrow> Inl e
                     | Inr delay \<Rightarrow>
                         Inr (Some ([PStr ''sh'', PStr ''-c'', PStr shcmd, PStr ''curtin-poweroff'',
                                     PStr delay]
                                    @ [PStr ''shutdown'', PStr opt, PStr ''now'']
                                    @ (case map_of d ''message'' of
                                         None \<Rightarrow> []
                                       | Some msg \<Rightarrow> if truthy msg then [msg] else [])))))
           | _ \<Rightarrow> Inl TypeError)
      | _ \<Rightarrow> Inl TypeError)"

text \<open>The delay token of a synthesised command: the argument after \<^verbatim>\<open>curtin-poweroff\<close>.\<close>

definition argv_delay :: "exn + pyval list option \<Rightarrow> pyval option" where
  "argv_delay r =
     (case r of
        Inr (Some argv) \<Rightarrow> (if 4 < length argv then Some (argv ! 4) else None)
      | _ \<Rightarrow> None)"

section \<open>Text helpers of the boot configuration parser\<close>

text \<open>
  The regular expressions, \<^verbatim>\<open>str.split()\<close>, \<^verbatim>\<open>shlex.split\<close> and
  \<^verbatim>\<open>os.path.join\<close> as \<^verbatim>\<open>apply_kexec\<close> uses them. \<^verbatim>\<open>\b\<close> is a position with a
  word character on exactly one side. On a \<^verbatim>\<open>str\<close> a word character is the underscore
  or a character that \<^verbatim>\<open>isalnum()\<close>: below 256 these are the ASCII letters and digits,
  the ordinal indicators, the micro sign, the superscript digits, the vulgar fractions and
  the letters from \<^verbatim>\<open>0xC0\<close> on (the multiplication and the division sign are not
  letters).
\<close>

definition is_word_char :: "char \<Rightarrow> bool" where
  "is_word_char c =
     (c \<in> set ''abcdefghijklmnopqrstuvwxyzABCDEFGHIJKLMNOPQRSTUVWXYZ0123456789_''
      \<or> c \<in> set [CHR 0xAA, CHR 0xB2, CHR 0xB3, CHR 0xB5, CHR 0xB9, CHR 0xBA,
                   CHR 0xBC, CHR 0xBD, CHR 0xBE]
      \<or> (192 \<le> (of_char c :: nat) \<and> c \<noteq> CHR 0xD7 \<and> c \<noteq> CHR 0xF7))"

text \<open>\<open>strip_prefix p s\<close>: what follows \<open>p\<close> in \<open>s\<close>, when \<open>s\<close> starts with \<open>p\<close>.\<close>

fun strip_prefix :: "string \<Rightarrow> string \<Rightarrow> string option" where
  "strip_prefix [] s = Some s"
| "strip_prefix (p # ps) [] = None"
| "strip_prefix (p # ps) (c # cs) = (if p = c then strip_prefix ps cs else None)"

text \<open>
  \<^verbatim>\<open>re.search(r"\bmenuentry\b", s)\<close>, scanning \<open>s\<close> from the left; the flag says whether
  the character before the position is a word character.
\<close>

fun search_menuentry :: "bool \<Rightarrow> string \<Rightarrow> bool" where
  "search_menuentry prev [] = False"
| "search_menuentry prev (c # cs) =
     ((\<not> prev \<and>
       (case strip_prefix ''menuentry'' (c # cs) of
          None \<Rightarrow> False
        | Some rest \<Rightarrow> (case rest of [] \<Rightarrow> True | d # _ \<Rightarrow> \<not> is_word_char d)))
      \<or> search_menuentry (is_word_char c) cs)"

text \<open>
  \<^verbatim>\<open>re.search(r"\bset default=\"[0-9]+\"\b", s)\<close>. After the closing quote, which is
  not a word character, \<^verbatim>\<open>\b\<close> asks for a word character.
\<close>

definition default_tail :: "string \<Rightarrow> bool" where
  "default_tail rest =
     (takeWhile is_digit rest \<noteq> [] \<and>
      (case dropWhile is_digit rest of
         q # n # _ \<Rightarrow> q = CHR 0x22 \<and> is_word_char n
       | _ \<Rightarrow> False))"

fun search_set_default :: "bool \<Rightarrow> string \<Rightarrow> bool" where
  "search_set_default prev [] = False"
| "search_set_default prev (c # cs) =
     ((\<not> prev \<and>
       (case strip_prefix (''set default='' @ [CHR 0x22]) (c # cs) of
          None \<Rightarrow> False
        | Some rest \<Rightarrow> default_tail rest))
      \<or> search_set_default (is_word_char c) cs)"

text \<open>\<^verbatim>\<open>" %s " % line\<close>\<close>

definition padded :: "string \<Rightarrow> string" where
  "padded line = '' '' @ line @ '' ''"

text \<open>\<^verbatim>\<open>int(re.sub(r"[^0-9]", '', line))\<close>: the digits of the whole line, read in decimal.\<close>

definition digit_val :: "char \<Rightarrow> nat" where
  "digit_val c = of_char c - 48"

definition int_of_digits :: "string \<Rightarrow> exn + nat" where
  "int_of_digits line =
     (case filter is_digit line of
        [] \<Rightarrow> Inl ValueError
      | ds \<Rightarrow> Inr (foldl (\<lambda>n c. 10 * n + digit_val c) 0 ds))"

text \<open>
  \<^verbatim>\<open>s.split()\<close>: the maximal runs of characters that are not whitespace
  (\<^verbatim>\<open>isspace()\<close>, which below 256 includes the next-line control and the no-break
  space).
\<close>

definition is_space :: "char \<Rightarrow> bool" where
  "is_space c = (c \<in> set [CHR 0x09, CHR 0x0A, CHR 0x0B, CHR 0x0C, CHR 0x0D,
                           CHR 0x1C, CHR 0x1D, CHR 0x1E, CHR 0x1F, CHR 0x20,
                           CHR 0x85, CHR 0xA0])"

fun split_ws :: "string \<Rightarrow> string \<Rightarrow> string list" where
  "split_ws tok [] = (if tok = [] then [] else [tok])"
| "split_ws tok (c # cs) =
     (if is_space c then (if tok = [] then split_ws [] cs else tok # split_ws [] cs)
      else split_ws (tok @ [c]) cs)"

definition py_split :: "string \<Rightarrow> string list" where
  "py_split s = split_ws [] s"

text \<open>
  \<^verbatim>\<open>shlex.split(s)\<close>: the POSIX mode of \<^verbatim>\<open>shlex\<close> with \<^verbatim>\<open>whitespace_split\<close> and no
  comment characters. The states are those of \<^verbatim>\<open>shlex.read_token\<close>: between tokens,
  in a token, in a quotation (with its quote character), after a backslash (with the state
  to return to). The flag is \<^verbatim>\<open>quoted\<close>: a token that had a quotation is kept when it
  is empty. An unclosed quotation and a trailing backslash raise \<^verbatim>\<open>ValueError\<close>.
\<close>

datatype lexstate = LWhite | LWord | LQuote char | LEsc lexstate

definition shlex_ws :: "char \<Rightarrow> bool" where
  "shlex_ws c = (c \<in> set [CHR 0x20, CHR 0x09, CHR 0x0D, CHR 0x0A])"

definition shlex_quote :: "char \<Rightarrow> bool" where
  "shlex_quote c = (c = CHR 0x27 \<or> c = CHR 0x22)"

definition emit :: "string \<Rightarrow> exn + string list \<Rightarrow> exn + string list" where
  "emit tok r = (case r of Inl e \<Rightarrow> Inl e | Inr ts \<Rightarrow> Inr (tok # ts))"

fun shlex_run :: "lexstate \<Rightarrow> string \<Rightarrow> bool \<Rightarrow> string \<Rightarrow> exn + string list" where
  "shlex_run LWhite tok quoted [] = Inr []"
| "shlex_run LWord tok quoted [] = (if tok \<noteq> [] \<or> quoted then Inr [tok] else Inr [])"
| "shlex_run (LQuote q) tok quoted [] = Inl ValueError"
| "shlex_run (LEsc ret) tok quoted [] = Inl ValueError"
| "shlex_run LWhite tok quoted (c # cs) =
     (if shlex_ws c then shlex_run LWhite [] False cs
      else if c = CHR 0x5C then shlex_run (LEsc LWord) [] False cs
      else if shlex_quote c then shlex_run (LQuote c) [] True cs
      else shlex_run LWord [c] False cs)"
| "shlex_run LWord tok quoted (c # cs) =
     (if shlex_ws c then
        (if tok \<noteq> [] \<or> quoted then emit tok (shlex_run LWhite [] False cs)
         else shlex_run LWhite [] False cs)
      else if shlex_quote c then shlex_run (LQuote c) tok True cs
      else if c = CHR 0x5C then shlex_run (LEsc LWord) tok quoted cs
      else shlex_run LWord (tok @ [c]) quoted cs)"
| "shlex_run (LQuote q) tok quoted (c # cs) =
     (if c = q then shlex_run LWord tok True cs
      else if c = CHR 0x5C \<and> q = CHR 0x22 then shlex_run (LEsc (LQuote q)) tok True cs
      else shlex_run (LQuote q) (tok @ [c]) True cs)"
| "shlex_run (LEsc ret) tok quoted (c # cs) =
     (case ret of
        LQuote q \<Rightarrow>
          (if c \<noteq> CHR 0x5C \<and> c \<noteq> q then shlex_run ret (tok @ [CHR 0x5C, c]) quoted cs
           else shlex_run ret (tok @ [c]) quoted cs)
      | _ \<Rightarrow> shlex_run ret (tok @ [c]) quoted cs)"

definition shlex_split :: "string \<Rightarrow> exn + string list" where
  "shlex_split s = shlex_run LWhite [] False s"

text \<open>\<^verbatim>\<open>os.path.join(a, b)\<close> of \<^verbatim>\<open>posixpath\<close>: an absolute \<open>b\<close> discards \<open>a\<close>.\<close>

definition os_path_join :: "string \<Rightarrow> string \<Rightarrow> string" where
  "os_path_join a b =
     (if b \<noteq> [] \<and> hd b = CHR ''/'' then b
      else if a = [] \<or> last a = CHR ''/'' then a @ b
      else a @ ''/'' @ b)"

section \<open>The default boot entry\<close>

text \<open>
  The first loop of \<^verbatim>\<open>apply_kexec\<close>, over the lines of \<^verbatim>\<open>grub.cfg\<close> numbered from 1
  (a line keeps its newline): the last matching \<^verbatim>\<open>set default\<close> line gives the index,
  every \<^verbatim>\<open>menuentry\<close> line gives its number.
\<close>

fun scan_grub :: "nat \<Rightarrow> string list \<Rightarrow> nat \<Rightarrow> nat list \<Rightarrow> exn + (nat \<times> nat list)" where
  "scan_grub line_num [] dflt menu_lines = Inr (dflt, menu_lines)"
| "scan_grub line_num (line # rest) dflt menu_lines =
     (case (if search_set_default False (padded line) then int_of_digits line
            else Inr dflt) of
        Inl e \<Rightarrow> Inl e
      | Inr d \<Rightarrow>
          scan_grub (Suc line_num) rest d
            (if search_menuentry False (padded line) then menu_lines @ [line_num]
             else menu_lines))"

text \<open>
  The second loop, \<^verbatim>\<open>for i in range(begin, end)\<close> over \<^verbatim>\<open>lines[i]\<close> (indexed from 0):
  every line with the word \<^verbatim>\<open>linux\<close> sets \<^verbatim>\<open>kernel\<close> and \<^verbatim>\<open>append\<close>, every line
  with the word \<^verbatim>\<open>initrd\<close> sets \<^verbatim>\<open>initrd\<close>; there is no \<^verbatim>\<open>break\<close>.
\<close>

definition second_token :: "string \<Rightarrow> exn + (string \<times> string list)" where
  "second_token line =
     (case shlex_split line of
        Inl e \<Rightarrow> Inl e
      | Inr split_line \<Rightarrow>
          if length split_line < 2 then Inl IndexError
          else Inr (split_line ! 1, drop 2 split_line))"

fun kexec_scan ::
  "string \<Rightarrow> string list \<Rightarrow> nat list \<Rightarrow> string \<times> string \<times> string \<Rightarrow>
   exn + (string \<times> string \<times> string)" where
  "kexec_scan target lines [] st = Inr st"
| "kexec_scan target lines (i # rest) (kern, appnd, initrd) =
     (if length lines \<le> i then Inl IndexError
      else
        (case (if ''linux'' \<in> set (py_split (lines ! i)) then
                 (case second_token (lines ! i) of
                    Inl e \<Rightarrow> Inl e
                  | Inr (path, args) \<Rightarrow>
                      Inr (os_path_join target path, ''--append='' @ join '' '' args))
               else Inr (kern, appnd)) of
           Inl e \<Rightarrow> Inl e
         | Inr (kern', appnd') \<Rightarrow>
             (case (if ''initrd'' \<in> set (py_split (lines ! i)) then
                      (case second_token (lines ! i) of
                         Inl e \<Rightarrow> Inl e
                       | Inr (path, args) \<Rightarrow> Inr (''--initrd='' @ os_path_join target path))
                    else Inr initrd) of
                Inl e \<Rightarrow> Inl e
              | Inr initrd' \<Rightarrow> kexec_scan target lines rest (kern', appnd', initrd'))))"

datatype boot_entry = NoMenuentry | NoKernel | BootEntry string string string

text \<open>
  The body of the \<^verbatim>\<open>with\<close> block of \<^verbatim>\<open>apply_kexec\<close> up to the call of
  \<^verbatim>\<open>kexec\<close>: the two soft failures and the arguments \<^verbatim>\<open>kernel\<close>, \<^verbatim>\<open>append\<close>,
  \<^verbatim>\<open>initrd\<close>. \<^verbatim>\<open>line_num\<close> after the first loop is the number of lines.
\<close>

definition entry_range :: "nat \<Rightarrow> nat list \<Rightarrow> nat \<Rightarrow> exn + (nat \<times> nat)" where
  "entry_range dflt menu_lines line_num =
     (if length menu_lines \<le> dflt then Inl IndexError
      else
        (let begin = menu_lines ! dflt in
         if begin \<noteq> last menu_lines then
           (if length menu_lines \<le> dflt + 1 then Inl IndexError
            else Inr (begin, menu_lines ! (dflt + 1) - 1))
         else Inr (begin, line_num)))"

definition default_entry :: "string \<Rightarrow> string list \<Rightarrow> exn + boot_entry" where
  "default_entry target lines =
     (case scan_grub 1 lines 0 [] of
        Inl e \<Rightarrow> Inl e
      | Inr (dflt, menu_lines) \<Rightarrow>
          if menu_lines = [] then Inr NoMenuentry
          else
            (case entry_range dflt menu_lines (length lines) of
               Inl e \<Rightarrow> Inl e
             | Inr (begin, stop) \<Rightarrow>
                 (case kexec_scan target lines [begin..<stop] ([], [], []) of
                    Inl e \<Rightarrow> Inl e
                  | Inr (kern, appnd, initrd) \<Rightarrow>
                      if kern = [] then Inr NoKernel
                      else Inr (BootEntry kern appnd initrd))))"

section \<open>The outside world\<close>

text \<open>
  Everything the module calls outside itself is an action: the file system, the process
  table, and the collaborators of the repository whose code is elsewhere
  (\<^verbatim>\<open>util\<close>, \<^verbatim>\<open>iscsi\<close>, \<^verbatim>\<open>zfs\<close>, the reporter). The state is the history of
  actions with their answers (a trace), and a world answers an action from the history, so
  any deterministic environment is a world. An answer may be an exception. Logging and the
  reporting scopes are recorded in the history and never fail.
\<close>

datatype action =
    EnsureDir pyval
  | OpenTruncate pyval
  | AppendLine pyval string
  | StdoutWrite string
  | IsFile pyval
  | LoadFile pyval
  | WriteFile string string
  | Which string
  | InstallPackages string
  | ReadLines string
  | Subp "string list"
  | Mkdtemp
  | Mkdir string
  | Listdir pyval
  | JsonDump string pydict
  | Touch string
  | OpenLog pyval
  | LogFileWrite pyval string
  | Popen string pyval bool "(string \<times> string) list"
  | LogRec logrec
  | NewReportStack string string string
  | ReportStart string
  | ReportFinish string bool
  | DumpConfig pydict
  | LoadReporter pydict
  | TargetPath string pyval
  | ReportSuccess
  | ReportFailure exn
  | CreateLogTarfile pyval pydict
  | GetDdImages pyval
  | DoUmount string
  | GetIscsiDisks pydict
  | RestartIscsi
  | GetZpools pydict
  | ZpoolExport string
  | Rmtree string
  | ForkSubp "pyval list"

datatype resp =
    RNone
  | RRaise exn
  | RBool bool
  | RStr string
  | RLines "string list"
  | RProc "(string \<times> int option) list"

type_synonym trace = "(action \<times> resp) list"
type_synonym world = "trace \<Rightarrow> action \<Rightarrow> resp"

datatype 'a outcome = Ok 'a | Raise exn | Diverge

definition call :: "world \<Rightarrow> action \<Rightarrow> trace \<Rightarrow> resp \<times> trace" where
  "call orc a tr = (orc tr a, tr @ [(a, orc tr a)])"

definition logged :: "action \<Rightarrow> trace \<Rightarrow> trace" where
  "logged a tr = tr @ [(a, RNone)]"

text \<open>The truth value of an answer, for a call whose result is only tested.\<close>

fun resp_truthy :: "resp \<Rightarrow> bool" where
  "resp_truthy (RBool b) = b"
| "resp_truthy (RStr s) = (s \<noteq> [])"
| "resp_truthy (RLines ls) = (ls \<noteq> [])"
| "resp_truthy _ = False"

fun resp_lines :: "resp \<Rightarrow> string list" where
  "resp_lines (RLines ls) = ls"
| "resp_lines _ = []"

text \<open>
  A call whose exception propagates, and sequencing: the rest runs only after a normal
  return.
\<close>

definition perform :: "world \<Rightarrow> action \<Rightarrow> trace \<Rightarrow> resp outcome \<times> trace" where
  "perform orc a tr =
     (case call orc a tr of
        (RRaise e, tr') \<Rightarrow> (Raise e, tr')
      | (r, tr') \<Rightarrow> (Ok r, tr'))"

definition and_then ::
  "'a outcome \<times> trace \<Rightarrow> ('a \<Rightarrow> trace \<Rightarrow> 'b outcome \<times> trace) \<Rightarrow> 'b outcome \<times> trace" where
  "and_then m f =
     (case m of
        (Ok x, tr) \<Rightarrow> f x tr
      | (Raise e, tr) \<Rightarrow> (Raise e, tr)
      | (Diverge, tr) \<Rightarrow> (Diverge, tr))"

section \<open>Kernel re-exec\<close>

text \<open>\<^verbatim>\<open>x.get(k)\<close>: only a dictionary has the method.\<close>

fun py_get :: "pyval \<Rightarrow> string \<Rightarrow> exn + pyval" where
  "py_get (PDict d) k = Inr (case map_of d k of None \<Rightarrow> PNone | Some v \<Rightarrow> v)"
| "py_get _ k = Inl AttributeError"

text \<open>
  \<^verbatim>\<open>apply_kexec(kexec, target)\<close> from the point where the request is enabled. First
  the tool is looked up (and installed when missing), the file is tested and its lines are
  read.
\<close>

definition read_grubcfg :: "world \<Rightarrow> string \<Rightarrow> trace \<Rightarrow> string list outcome \<times> trace" where
  "read_grubcfg orc target_grubcfg tr =
     and_then (perform orc (Which ''kexec'') tr) (\<lambda>w tr.
     and_then (if resp_truthy w then (Ok RNone, tr)
               else perform orc (InstallPackages ''kexec-tools'') tr) (\<lambda>_ tr.
     and_then (perform orc (IsFile (PStr target_grubcfg)) tr) (\<lambda>f tr.
     if \<not> resp_truthy f then (Raise ValueError, tr)
     else
     and_then (perform orc (ReadLines target_grubcfg) tr) (\<lambda>r tr.
     (Ok (resp_lines r), tr)))))"

text \<open>
  Then the body of the \<^verbatim>\<open>with\<close> block: the default entry is resolved from the
  lines, a soft failure logs an error and returns \<^verbatim>\<open>False\<close>, an exception of the
  parsing is not caught, and \<^verbatim>\<open>kexec -l\<close> is called on success.
\<close>

definition load_entry :: "world \<Rightarrow> string \<Rightarrow> string list \<Rightarrow> trace \<Rightarrow> bool outcome \<times> trace" where
  "load_entry orc target lines tr =
     (case default_entry target lines of
        Inl e \<Rightarrow> (Raise e, tr)
      | Inr NoMenuentry \<Rightarrow>
          (Ok False,
           logged (LogRec (Log ERROR (''grub config file does not have a menuentry'' @ [CHR 0x0A]) [])) tr)
      | Inr NoKernel \<Rightarrow>
          (Ok False,
           logged (LogRec (Log ERROR (''grub config file does not have a kernel'' @ [CHR 0x0A]) [])) tr)
      | Inr (BootEntry kern appnd initrd) \<Rightarrow>
          and_then
            (perform orc (Subp [''kexec'', ''-l'', kern, appnd, initrd])
               (logged (LogRec (Log DEBUG ''kexec -l %s %s %s''
                                  [PStr kern, PStr appnd, PStr initrd])) tr))
            (\<lambda>_ tr. (Ok True, tr)))"

definition kexec_load :: "world \<Rightarrow> string \<Rightarrow> string \<Rightarrow> trace \<Rightarrow> bool outcome \<times> trace" where
  "kexec_load orc target target_grubcfg tr =
     and_then (read_grubcfg orc target_grubcfg tr) (load_entry orc target)"

text \<open>
  \<^verbatim>\<open>apply_kexec(kexec, target)\<close>. The test of the mode calls \<^verbatim>\<open>kexec.get\<close> before the
  test \<^verbatim>\<open>isinstance(kexec, dict)\<close>.
\<close>

definition apply_kexec :: "world \<Rightarrow> pyval \<Rightarrow> string \<Rightarrow> trace \<Rightarrow> bool outcome \<times> trace" where
  "apply_kexec orc kexec target tr =
     (let target_grubcfg = os_path_join target ''boot/grub/grub.cfg'' in
      if kexec = PNone then (Ok False, tr)
      else
        (case py_get kexec ''mode'' of
           Inl e \<Rightarrow> (Raise e, tr)
         | Inr mode \<Rightarrow>
             if \<not> py_eq mode (PStr ''on'') then (Ok False, tr)
             else if \<not> is_dict kexec then (Raise TypeError, tr)
             else kexec_load orc target target_grubcfg tr))"

section \<open>The install log\<close>

definition INSTALL_LOG :: string where
  "INSTALL_LOG = ''/var/log/curtin/install.log''"

definition SAVE_INSTALL_LOG :: string where
  "SAVE_INSTALL_LOG = ''/root/curtin-install.log''"

definition SAVE_INSTALL_CONFIG :: string where
  "SAVE_INSTALL_CONFIG = ''/root/curtin-install-cfg.yaml''"

text \<open>
  \<^verbatim>\<open>os.path.dirname\<close> of \<^verbatim>\<open>posixpath\<close>: the path up to its last slash, without
  trailing slashes unless it is all slashes. It raises \<^verbatim>\<open>TypeError\<close> on a value that
  is not a path.
\<close>

definition dirname_str :: "string \<Rightarrow> string" where
  "dirname_str p =
     (let head = rev (dropWhile (\<lambda>c. c \<noteq> CHR ''/'') (rev p))
      in if head \<noteq> [] \<and> \<not> list_all (\<lambda>c. c = CHR ''/'') head
         then rev (dropWhile (\<lambda>c. c = CHR ''/'') (rev head))
         else head)"

fun os_path_dirname :: "pyval \<Rightarrow> exn + string" where
  "os_path_dirname (PStr p) = Inr (dirname_str p)"
| "os_path_dirname _ = Inl TypeError"

text \<open>
  \<^verbatim>\<open>clear_install_log(logfile)\<close>: \<^verbatim>\<open>util.ensure_dir\<close> stands before the
  \<^verbatim>\<open>try\<close>; \<^verbatim>\<open>except Exception: pass\<close> covers the \<^verbatim>\<open>open\<close> only.
\<close>

definition clear_install_log :: "world \<Rightarrow> pyval \<Rightarrow> trace \<Rightarrow> unit outcome \<times> trace" where
  "clear_install_log orc logfile tr =
     (case os_path_dirname logfile of
        Inl e \<Rightarrow> (Raise e, tr)
      | Inr d \<Rightarrow>
          and_then (perform orc (EnsureDir (PStr d)) tr) (\<lambda>_ tr.
          (case call orc (OpenTruncate logfile) tr of
             (RRaise e, tr') \<Rightarrow> if is_Exception e then (Ok (), tr') else (Raise e, tr')
           | (_, tr') \<Rightarrow> (Ok (), tr'))))"

text \<open>
  \<^verbatim>\<open>copy_install_log(logfile, target, log_target_path)\<close>: two tests that warn and
  return, then the copy, with no \<^verbatim>\<open>try\<close>. The file name is computed first
  (\<^verbatim>\<open>paths.target_path\<close>), then the log is read, then the copy is written.
\<close>

definition copy_install_log ::
  "world \<Rightarrow> pyval \<Rightarrow> string \<Rightarrow> pyval \<Rightarrow> trace \<Rightarrow> unit outcome \<times> trace" where
  "copy_install_log orc logfile target log_target_path tr =
     (if \<not> truthy logfile then
        (Ok (), logged (LogRec (Log WARN ''Cannot copy curtin install log \"%s\" to target.''
                                  [logfile])) tr)
      else
        and_then (perform orc (IsFile logfile) tr) (\<lambda>f tr.
        if \<not> resp_truthy f then
          (Ok (), logged (LogRec (Log WARN
               ''Cannot copy curtin install log \"%s\" to target.  file does not exist.''
               [logfile])) tr)
        else
          and_then (perform orc (TargetPath target log_target_path)
                      (logged (LogRec (Log DEBUG ''Copying curtin install log from %s to target/%s''
                                         [logfile, log_target_path])) tr)) (\<lambda>filename tr.
          and_then (perform orc (LoadFile logfile) tr) (\<lambda>content tr.
          and_then (perform orc (WriteFile (case filename of RStr s \<Rightarrow> s | _ \<Rightarrow> [])
                                           (case content of RStr s \<Rightarrow> s | _ \<Rightarrow> [])) tr) (\<lambda>_ tr.
          (Ok (), tr))))))"

text \<open>
  \<^verbatim>\<open>writeline(fname, output)\<close>: \<^verbatim>\<open>except IOError: pass\<close> covers the
  \<^verbatim>\<open>open\<close> and the \<^verbatim>\<open>write\<close>; any other exception passes.
\<close>

definition with_newline :: "string \<Rightarrow> string" where
  "with_newline output =
     (if output \<noteq> [] \<and> last output = CHR 0x0A then output else output @ [CHR 0x0A])"

definition writeline :: "world \<Rightarrow> pyval \<Rightarrow> string \<Rightarrow> trace \<Rightarrow> unit outcome \<times> trace" where
  "writeline orc fname output tr =
     (case call orc (AppendLine fname (with_newline output)) tr of
        (RRaise e, tr') \<Rightarrow> if is_OSError e then (Ok (), tr') else (Raise e, tr')
      | (_, tr') \<Rightarrow> (Ok (), tr'))"

definition writeline_and_stdout :: "world \<Rightarrow> pyval \<Rightarrow> string \<Rightarrow> trace \<Rightarrow> unit outcome \<times> trace" where
  "writeline_and_stdout orc logfile message tr =
     and_then (writeline orc logfile message tr) (\<lambda>_ tr.
     and_then (perform orc (StdoutWrite (message @ [CHR 0x0A])) tr) (\<lambda>_ tr.
     (Ok (), tr)))"

section \<open>The working directory\<close>

record workingdir =
  wd_scratch :: string
  wd_target :: string
  wd_top :: string
  wd_interfaces :: string
  wd_netconf :: string
  wd_netstate :: string
  wd_fstab :: string
  wd_config_file :: string

text \<open>
  The fields of \<^verbatim>\<open>WorkingDir\<close> carry the prefix \<open>wd_\<close>.
  \<^verbatim>\<open>WorkingDir.__init__(config)\<close>. \<^verbatim>\<open>util.ensure_dir\<close> is given the target as it
  stands in the configuration; a target that is not a string cannot be a directory name,
  and \<^verbatim>\<open>os.makedirs\<close> raises \<^verbatim>\<open>TypeError\<close> on it. The loop touches four files:
  \<^verbatim>\<open>config_f\<close>, \<^verbatim>\<open>fstab_f\<close>, \<^verbatim>\<open>netconf_f\<close>, \<^verbatim>\<open>netstate_f\<close>.
\<close>

fun touch_all :: "world \<Rightarrow> string list \<Rightarrow> trace \<Rightarrow> unit outcome \<times> trace" where
  "touch_all orc [] tr = (Ok (), tr)"
| "touch_all orc (f # fs) tr =
     and_then (perform orc (Touch f) tr) (\<lambda>_ tr. touch_all orc fs tr)"

definition install_target :: "pydict \<Rightarrow> exn + pyval" where
  "install_target config =
     (case map_of config ''install'' of
        None \<Rightarrow> Inr PNone
      | Some inst \<Rightarrow> py_get inst ''target'')"

definition resolve_target :: "pydict \<Rightarrow> string \<Rightarrow> exn + string" where
  "resolve_target config top_d =
     (case install_target config of
        Inl e \<Rightarrow> Inl e
      | Inr tgt \<Rightarrow>
          if \<not> truthy tgt then Inr (os_path_join top_d ''target'')
          else (case tgt of PStr s \<Rightarrow> Inr s | _ \<Rightarrow> Inl TypeError))"

definition ensure_target :: "world \<Rightarrow> string \<Rightarrow> trace \<Rightarrow> unit outcome \<times> trace" where
  "ensure_target orc target_d tr =
     (case call orc (EnsureDir (PStr target_d)) tr of
        (RRaise e, tr') \<Rightarrow> if is_OSError e then (Raise ValueError, tr') else (Raise e, tr')
      | (_, tr') \<Rightarrow>
          and_then (perform orc (Listdir (PStr target_d)) tr') (\<lambda>l tr.
          if resp_lines l \<noteq> [] then (Raise ValueError, tr) else (Ok (), tr)))"

definition WorkingDir_init :: "world \<Rightarrow> pydict \<Rightarrow> trace \<Rightarrow> workingdir outcome \<times> trace" where
  "WorkingDir_init orc config tr =
     and_then (perform orc Mkdtemp tr) (\<lambda>t tr.
     let top_d = (case t of RStr s \<Rightarrow> s | _ \<Rightarrow> []);
         state_d = os_path_join top_d ''state'';
         scratch_d = os_path_join top_d ''scratch''
     in
     and_then (perform orc (Mkdir state_d) tr) (\<lambda>_ tr.
     and_then (perform orc (Mkdir scratch_d) tr) (\<lambda>_ tr.
     case resolve_target config top_d of
       Inl e \<Rightarrow> (Raise e, tr)
     | Inr target_d \<Rightarrow>
         and_then (ensure_target orc target_d tr) (\<lambda>_ tr.
         let netconf_f = os_path_join state_d ''network_config'';
             netstate_f = os_path_join state_d ''network_state'';
             interfaces_f = os_path_join state_d ''interfaces'';
             config_f = os_path_join state_d ''config'';
             fstab_f = os_path_join state_d ''fstab''
         in
         and_then (perform orc (JsonDump config_f config) tr) (\<lambda>_ tr.
         and_then (touch_all orc [config_f, fstab_f, netconf_f, netstate_f] tr) (\<lambda>_ tr.
         (Ok \<lparr> wd_scratch = scratch_d, wd_target = target_d, wd_top = top_d,
                wd_interfaces = interfaces_f, wd_netconf = netconf_f,
                wd_netstate = netstate_f, wd_fstab = fstab_f,
                wd_config_file = config_f \<rparr>, tr)))))))"

text \<open>\<^verbatim>\<open>WorkingDir.env()\<close>\<close>

definition workingdir_env :: "workingdir \<Rightarrow> (string \<times> string) list" where
  "workingdir_env wd =
     [(''WORKING_DIR'', wd_scratch wd), (''OUTPUT_FSTAB'', wd_fstab wd),
      (''OUTPUT_INTERFACES'', wd_interfaces wd), (''OUTPUT_NETWORK_CONFIG'', wd_netconf wd),
      (''OUTPUT_NETWORK_STATE'', wd_netstate wd), (''TARGET_MOUNT_POINT'', wd_target wd),
      (''CONFIG'', wd_config_file wd)]"

text \<open>Whether an answer is an exception.\<close>

fun raises :: "resp \<Rightarrow> bool" where
  "raises (RRaise _) = True"
| "raises _ = False"

text \<open>
  The files an episode of the history created: a file is created by opening it for
  writing or appending (\<^verbatim>\<open>open(f, "w")\<close>, \<^verbatim>\<open>open(f, "ab")\<close>) when the call returned.
\<close>

fun created_file :: "action \<times> resp \<Rightarrow> string option" where
  "created_file (Touch p, r) = (if raises r then None else Some p)"
| "created_file (JsonDump p c, r) = (if raises r then None else Some p)"
| "created_file _ = None"

fun created_files :: "trace \<Rightarrow> string list" where
  "created_files [] = []"
| "created_files (x # xs) =
     (case created_file x of None \<Rightarrow> created_files xs | Some p \<Rightarrow> p # created_files xs)"

section \<open>Stages\<close>

text \<open>
  A \<^verbatim>\<open>Stage\<close> object; the fields carry the prefix \<open>st_\<close>. The open install log is
  the path it was opened under (\<^verbatim>\<open>None\<close> when there is none), the reporting scope is
  its full name.
\<close>

record stage =
  st_name :: pyval
  st_commands :: pyval
  st_env :: "(string \<times> string) list"
  st_install_log :: "pyval option"
  st_reportstack :: string

fun resp_str :: "resp \<Rightarrow> string" where
  "resp_str (RStr s) = s"
| "resp_str _ = []"

fun resp_proc :: "resp \<Rightarrow> (string \<times> int option) list" where
  "resp_proc (RProc steps) = steps"
| "resp_proc _ = []"

text \<open>\<^verbatim>\<open>Stage._open_install_log(logfile)\<close>\<close>

definition open_install_log :: "world \<Rightarrow> pyval \<Rightarrow> trace \<Rightarrow> pyval option outcome \<times> trace" where
  "open_install_log orc logfile tr =
     (if \<not> truthy logfile then (Ok None, tr)
      else
        (case call orc (OpenLog logfile) tr of
           (RRaise e, tr') \<Rightarrow> if is_OSError e then (Ok None, tr') else (Raise e, tr')
         | (_, tr') \<Rightarrow> (Ok (Some logfile), tr')))"

text \<open>
  \<^verbatim>\<open>Stage.__init__(name, commands, env, reportstack, logfile)\<close>. A reporting scope is
  made by \<^verbatim>\<open>events.ReportEventStack(name, description, parent)\<close>, whose answer is the
  full name of the scope.
\<close>

definition Stage_init ::
  "world \<Rightarrow> pyval \<Rightarrow> pyval \<Rightarrow> (string \<times> string) list \<Rightarrow> string option \<Rightarrow> pyval \<Rightarrow> trace \<Rightarrow>
   stage outcome \<times> trace" where
  "Stage_init orc name commands env reportstack logfile tr =
     and_then (open_install_log orc (if logfile = PNone then PStr INSTALL_LOG else logfile) tr)
       (\<lambda>install_log tr.
     and_then (case reportstack of
                 Some r \<Rightarrow> (Ok r, tr)
               | None \<Rightarrow>
                   and_then (perform orc (NewReportStack (''stage-'' @ py_str name)
                                            (''basic stage '' @ py_str name) []) tr)
                     (\<lambda>r tr. (Ok (resp_str r), tr)))
       (\<lambda>r tr.
     (Ok \<lparr> st_name = name, st_commands = commands, st_env = env,
            st_install_log = install_log, st_reportstack = r \<rparr>, tr)))"

text \<open>\<^verbatim>\<open>Stage.write(data)\<close>: to the standard output, then to the install log when open.\<close>

definition Stage_write :: "world \<Rightarrow> stage \<Rightarrow> string \<Rightarrow> trace \<Rightarrow> unit outcome \<times> trace" where
  "Stage_write orc st data tr =
     and_then (perform orc (StdoutWrite data) tr) (\<lambda>_ tr.
     (case st_install_log st of
        None \<Rightarrow> (Ok (), tr)
      | Some f \<Rightarrow> and_then (perform orc (LogFileWrite f data) tr) (\<lambda>_ tr. (Ok (), tr))))"

text \<open>
  The loop \<^verbatim>\<open>while True\<close> of \<^verbatim>\<open>Stage.run\<close>. A started process is the list of what
  the successive rounds observe: the data \<^verbatim>\<open>sp.stdout.read(1)\<close> returns, and what
  \<^verbatim>\<open>sp.poll()\<close> would return. The loop ends at the first round with no data and an
  exit code; a process that never shows one keeps the loop running, which is the outcome
  \<open>Diverge\<close> when the list is used up.
\<close>

fun stream_output ::
  "world \<Rightarrow> stage \<Rightarrow> (string \<times> int option) list \<Rightarrow> string \<Rightarrow> trace \<Rightarrow>
   (string \<times> int) outcome \<times> trace" where
  "stream_output orc st [] output tr = (Diverge, tr)"
| "stream_output orc st ((data, poll) # rest) output tr =
     (if data = [] \<and> poll \<noteq> None then (Ok (output, the poll), tr)
      else
        and_then (Stage_write orc st data tr) (\<lambda>_ tr.
        stream_output orc st rest (output @ data) tr))"

text \<open>
  \<^verbatim>\<open>' '.join(cmd)\<close> in the description of the command's reporting scope: a string is
  joined character by character, a list must hold strings, a dictionary gives its keys,
  anything else is not iterable.
\<close>

fun str_items :: "pyval list \<Rightarrow> exn + string list" where
  "str_items [] = Inr []"
| "str_items (PStr s # xs) = (case str_items xs of Inl e \<Rightarrow> Inl e | Inr ss \<Rightarrow> Inr (s # ss))"
| "str_items (_ # xs) = Inl TypeError"

fun describe_cmd :: "pyval \<Rightarrow> exn + string" where
  "describe_cmd (PStr s) = Inr (join '' '' (map (\<lambda>c. [c]) s))"
| "describe_cmd (PList xs) =
     (case str_items xs of Inl e \<Rightarrow> Inl e | Inr ss \<Rightarrow> Inr (join '' '' ss))"
| "describe_cmd (PDict d) = Inr (join '' '' (keys d))"
| "describe_cmd _ = Inl TypeError"

fun is_list :: "pyval \<Rightarrow> bool" where
  "is_list (PList _) = True"
| "is_list _ = False"

fun is_Ok :: "'a outcome \<Rightarrow> bool" where
  "is_Ok (Ok _) = True"
| "is_Ok _ = False"

text \<open>
  Leaving a \<^verbatim>\<open>with\<close> block, after its body returned or raised: a reporting scope
  (\<^verbatim>\<open>events.ReportEventStack\<close>) reports its end, with success or failure, and the
  timer (\<^verbatim>\<open>util.LogTimer\<close>) logs the duration; neither swallows the exception. Entering
  a reporting scope reports its start, entering the timer does nothing that shows. A loop
  that never ends leaves no block.
\<close>

definition leave_report :: "string \<Rightarrow> 'a outcome \<times> trace \<Rightarrow> 'a outcome \<times> trace" where
  "leave_report fullname m =
     (case m of
        (Diverge, tr) \<Rightarrow> (Diverge, tr)
      | (res, tr) \<Rightarrow> (res, logged (ReportFinish fullname (is_Ok res)) tr))"

definition leave_timer :: "string \<Rightarrow> 'a outcome \<times> trace \<Rightarrow> 'a outcome \<times> trace" where
  "leave_timer timed m =
     (case m of
        (Diverge, tr) \<Rightarrow> (Diverge, tr)
      | (res, tr) \<Rightarrow> (res, logged (LogRec (Log DEBUG ''%s took %0.3f seconds'' [PStr timed])) tr))"

text \<open>
  The process of one command, inside the \<^verbatim>\<open>with\<close> blocks: \<^verbatim>\<open>subprocess.Popen\<close>, the
  loop, the test of the return code. The action \<open>Popen\<close> carries, before the arguments
  \<^verbatim>\<open>cmd\<close>, \<^verbatim>\<open>shell\<close> and \<^verbatim>\<open>env\<close> of the call, the name of the command it is made
  for; the answer is the started process.
\<close>

definition run_process ::
  "world \<Rightarrow> stage \<Rightarrow> string \<Rightarrow> pyval \<Rightarrow> (string \<times> string) list \<Rightarrow> trace \<Rightarrow> unit outcome \<times> trace" where
  "run_process orc st cmdname cmd env tr =
     (case call orc (Popen cmdname cmd (\<not> is_list cmd) env) tr of
        (RRaise e, tr') \<Rightarrow>
          if is_OSError e then
            (Raise (ProcessExecutionError None None None cmd (Some e)),
             logged (LogRec (Log WARN ''%s command failed'' [PStr cmdname])) tr')
          else (Raise e, tr')
      | (r, tr') \<Rightarrow>
          and_then (stream_output orc st (resp_proc r) [] tr') (\<lambda>(output, rc) tr.
          if rc \<noteq> 0 then
            (Raise (ProcessExecutionError (Some output) (Some []) (Some rc) cmd None),
             logged (LogRec (Log WARN ''%s command failed'' [PStr cmdname])) tr)
          else (Ok (), tr)))"

text \<open>
  One round of the loop \<^verbatim>\<open>for cmdname in sorted(self.commands.keys())\<close>. The timer is
  the outer block, the reporting scope of the command the inner one.
\<close>

definition run_command ::
  "world \<Rightarrow> stage \<Rightarrow> pydict \<Rightarrow> string \<Rightarrow> trace \<Rightarrow> unit outcome \<times> trace" where
  "run_command orc st d cmdname tr =
     (case map_of d cmdname of
        None \<Rightarrow> (Raise KeyError, tr)
      | Some cmd \<Rightarrow>
          if \<not> truthy cmd then (Ok (), tr)
          else
            (case describe_cmd cmd of
               Inl e \<Rightarrow> (Raise e, tr)
             | Inr desc \<Rightarrow>
                 and_then (perform orc (NewReportStack cmdname
                                          (''running '' @ [CHR 0x27] @ desc @ [CHR 0x27])
                                          (st_reportstack st)) tr) (\<lambda>cur_res tr.
                 leave_timer cmdname
                   (leave_report (resp_str cur_res)
                      (run_process orc st cmdname cmd
                         (AList.update ''CURTIN_REPORTSTACK'' (resp_str cur_res) (st_env st))
                         (logged (ReportStart (resp_str cur_res)) tr))))))"

fun run_commands ::
  "world \<Rightarrow> stage \<Rightarrow> pydict \<Rightarrow> string list \<Rightarrow> trace \<Rightarrow> unit outcome \<times> trace" where
  "run_commands orc st d [] tr = (Ok (), tr)"
| "run_commands orc st d (cmdname # rest) tr =
     and_then (run_command orc st d cmdname tr) (\<lambda>_ tr. run_commands orc st d rest tr)"

text \<open>\<^verbatim>\<open>Stage.run()\<close>: only a dictionary has \<^verbatim>\<open>keys\<close>.\<close>

definition Stage_run :: "world \<Rightarrow> stage \<Rightarrow> trace \<Rightarrow> unit outcome \<times> trace" where
  "Stage_run orc st tr =
     (case st_commands st of
        PDict d \<Rightarrow> run_commands orc st d (sort (keys d)) tr
      | _ \<Rightarrow> (Raise AttributeError, tr))"

text \<open>The commands launched in a history, in their order: the name and the command.\<close>

fun launch :: "action \<times> resp \<Rightarrow> (string \<times> pyval) list" where
  "launch (Popen cmdname cmd shell env, r) = [(cmdname, cmd)]"
| "launch _ = []"

definition launched :: "trace \<Rightarrow> (string \<times> pyval) list" where
  "launched tr = concat (map launch tr)"

section \<open>The install command\<close>

text \<open>
  What \<^verbatim>\<open>cmd_install\<close> takes from outside the configuration: the full name of
  \<^verbatim>\<open>args.reportstack\<close>, \<^verbatim>\<open>os.environ\<close>, and \<^verbatim>\<open>version.version_string()\<close>.
\<close>

record install_args =
  args_reportstack :: string
  os_environ :: "(string \<times> string) list"
  version_string :: string

definition INSTALL_START_MSG :: "string \<Rightarrow> string" where
  "INSTALL_START_MSG v = ''curtin: Installation started. ('' @ v @ '')''"

definition INSTALL_PASS_MSG :: string where
  "INSTALL_PASS_MSG = ''curtin: Installation finished.''"

text \<open>
  \<^verbatim>\<open>INSTALL_FAIL_MSG.format(exception=e)\<close>; of the exception the class is printed, the
  text of its message is not kept.
\<close>

fun exn_text :: "exn \<Rightarrow> string" where
  "exn_text ValueError = ''ValueError''"
| "exn_text TypeError = ''TypeError''"
| "exn_text AttributeError = ''AttributeError''"
| "exn_text IndexError = ''IndexError''"
| "exn_text KeyError = ''KeyError''"
| "exn_text (OSError m) = m"
| "exn_text (ProcessExecutionError out err rc cmd reason) = ''ProcessExecutionError''"
| "exn_text BadUsage = ''BadUsage''"
| "exn_text (OtherException m) = m"
| "exn_text (SystemExit n) = ''SystemExit''"
| "exn_text KeyboardInterrupt = ''KeyboardInterrupt''"

definition INSTALL_FAIL_MSG :: "exn \<Rightarrow> string" where
  "INSTALL_FAIL_MSG e = ''curtin: Installation failed with exception: '' @ exn_text e"

definition STAGE_DESCRIPTIONS :: "(string \<times> string) list" where
  "STAGE_DESCRIPTIONS =
     [(''early'', ''preparing for installation''),
      (''partitioning'', ''configuring storage''),
      (''network'', ''configuring network''),
      (''extract'', ''writing install sources to disk''),
      (''curthooks'', ''configuring installed system''),
      (''hook'', ''finalizing installation''),
      (''late'', ''executing late commands'')]"

text \<open>\<^verbatim>\<open>d.get(k, default)\<close> on a value: only a dictionary has the method.\<close>

fun py_get_default :: "pyval \<Rightarrow> string \<Rightarrow> pyval \<Rightarrow> exn + pyval" where
  "py_get_default (PDict d) k dflt = Inr (case map_of d k of None \<Rightarrow> dflt | Some v \<Rightarrow> v)"
| "py_get_default _ k dflt = Inl AttributeError"

definition cfg_get :: "pydict \<Rightarrow> string \<Rightarrow> pyval \<Rightarrow> pyval" where
  "cfg_get cfg k dflt = (case map_of cfg k of None \<Rightarrow> dflt | Some v \<Rightarrow> v)"

text \<open>Iteration over a value: a list, the keys of a dictionary, the characters of a string.\<close>

fun py_iter :: "pyval \<Rightarrow> exn + pyval list" where
  "py_iter (PList xs) = Inr xs"
| "py_iter (PDict d) = Inr (map PStr (keys d))"
| "py_iter (PStr s) = Inr (map (\<lambda>c. PStr [c]) s)"
| "py_iter _ = Inl TypeError"

text \<open>
  \<^verbatim>\<open>STAGE_DESCRIPTIONS.get(name, "stage %s" % name)\<close>: a list or a dictionary is not
  hashable.
\<close>

fun stage_description :: "pyval \<Rightarrow> exn + string" where
  "stage_description (PList xs) = Inl TypeError"
| "stage_description (PDict d) = Inl TypeError"
| "stage_description (PStr s) =
     Inr (case map_of STAGE_DESCRIPTIONS s of None \<Rightarrow> ''stage '' @ s | Some desc \<Rightarrow> desc)"
| "stage_description v = Inr (''stage '' @ py_str v)"

text \<open>
  One round of the loop \<^verbatim>\<open>for name in cfg.get('stages')\<close>: the reporting scope of the
  stage, its name in the environment, the \<^verbatim>\<open>Stage\<close> object and its run. The reporting
  scope is the outer block, the timer the inner one. The environment is returned: the next
  round starts from it.
\<close>

definition run_stage ::
  "world \<Rightarrow> install_args \<Rightarrow> pydict \<Rightarrow> pyval \<Rightarrow> (string \<times> string) list \<Rightarrow> pyval \<Rightarrow> trace \<Rightarrow>
   (string \<times> string) list outcome \<times> trace" where
  "run_stage orc args cfg logfile env name tr =
     (case stage_description name of
        Inl e \<Rightarrow> (Raise e, tr)
      | Inr desc \<Rightarrow>
          and_then (perform orc (NewReportStack (''stage-'' @ py_str name) desc
                                   (args_reportstack args)) tr) (\<lambda>rs tr.
          leave_report (resp_str rs)
            (leave_timer (''stage_'' @ py_str name)
               (and_then (Stage_init orc name (cfg_get cfg (py_str name @ ''_commands'') (PDict []))
                            (AList.update ''CURTIN_REPORTSTACK'' (resp_str rs) env)
                            (Some (resp_str rs)) logfile
                            (logged (ReportStart (resp_str rs)) tr)) (\<lambda>st tr.
                and_then (Stage_run orc st tr) (\<lambda>_ tr.
                (Ok (AList.update ''CURTIN_REPORTSTACK'' (resp_str rs) env), tr)))))))"

fun run_stages ::
  "world \<Rightarrow> install_args \<Rightarrow> pydict \<Rightarrow> pyval \<Rightarrow> (string \<times> string) list \<Rightarrow> pyval list \<Rightarrow> trace \<Rightarrow>
   unit outcome \<times> trace" where
  "run_stages orc args cfg logfile env [] tr = (Ok (), tr)"
| "run_stages orc args cfg logfile env (name # rest) tr =
     and_then (run_stage orc args cfg logfile env name tr) (\<lambda>env' tr.
     run_stages orc args cfg logfile env' rest tr)"

text \<open>
  The \<^verbatim>\<open>try\<close> block of \<^verbatim>\<open>cmd_install\<close> after \<^verbatim>\<open>workingd = WorkingDir(cfg)\<close>: the
  test of the disk images, the stages, kernel re-exec, the success banner. The
  configuration is returned with the outcome: a successful \<^verbatim>\<open>apply_kexec\<close> sets
  \<^verbatim>\<open>power_state\<close> in it, whatever happens next.
\<close>

definition kexec_power_state :: pyval where
  "kexec_power_state =
     PDict [(''mode'', PStr ''reboot''), (''delay'', PStr ''now''),
            (''message'', PStr ([CHR 0x27] @ ''rebooting with kexec'' @ [CHR 0x27]))]"

definition env_dict :: "workingdir \<Rightarrow> pyval" where
  "env_dict workingd = PDict (map (\<lambda>(k, v). (k, PStr v)) (workingdir_env workingd))"

definition install_stages ::
  "world \<Rightarrow> install_args \<Rightarrow> pydict \<Rightarrow> pyval \<Rightarrow> workingdir \<Rightarrow> trace \<Rightarrow>
   (unit outcome \<times> pydict) \<times> trace" where
  "install_stages orc args cfg logfile workingd tr =
     (case
        and_then (perform orc (GetDdImages (cfg_get cfg ''sources'' (PDict []))) tr) (\<lambda>dd tr.
        if 1 < length (resp_lines dd) then (Raise ValueError, tr)
        else
          (case py_iter (cfg_get cfg ''stages'' PNone) of
             Inl e \<Rightarrow> (Raise e, logged (LogRec (Log DEBUG ''%s'' [env_dict workingd])) tr)
           | Inr names \<Rightarrow>
               and_then (run_stages orc args cfg logfile
                           (fold (\<lambda>(k, v). AList.update k v) (workingdir_env workingd)
                              (os_environ args))
                           names
                           (logged (LogRec (Log DEBUG ''%s'' [env_dict workingd])) tr)) (\<lambda>_ tr.
               apply_kexec orc (cfg_get cfg ''kexec'' PNone) (wd_target workingd) tr)))
      of
        (Ok kexec, tr) \<Rightarrow>
          (let cfg' = (if kexec then AList.update ''power_state'' kexec_power_state cfg else cfg)
           in case and_then (writeline_and_stdout orc logfile INSTALL_PASS_MSG tr) (\<lambda>_ tr.
                   and_then (perform orc ReportSuccess tr) (\<lambda>_ tr. (Ok (), tr))) of
                (res, tr) \<Rightarrow> ((res, cfg'), tr))
      | (Raise e, tr) \<Rightarrow> ((Raise e, cfg), tr)
      | (Diverge, tr) \<Rightarrow> ((Diverge, cfg), tr))"

text \<open>The whole \<^verbatim>\<open>try\<close> block: the outcome, the configuration and \<^verbatim>\<open>workingd\<close>.\<close>

definition install_try ::
  "world \<Rightarrow> install_args \<Rightarrow> pydict \<Rightarrow> pyval \<Rightarrow> trace \<Rightarrow>
   (unit outcome \<times> pydict \<times> workingdir option) \<times> trace" where
  "install_try orc args cfg logfile tr =
     (case WorkingDir_init orc cfg tr of
        (Ok workingd, tr) \<Rightarrow>
          (case install_stages orc args cfg logfile workingd tr of
             ((res, cfg'), tr) \<Rightarrow> ((res, cfg', Some workingd), tr))
      | (Raise e, tr) \<Rightarrow> ((Raise e, cfg, None), tr)
      | (Diverge, tr) \<Rightarrow> ((Diverge, cfg, None), tr))"

text \<open>
  The clause \<^verbatim>\<open>except Exception as e\<close>: the failure line in the log, the report of the
  failure, the archive of the logs when a path is configured, then \<^verbatim>\<open>raise e\<close>. An
  exception of one of these calls takes the place of \<open>e\<close>.
\<close>

definition install_failed ::
  "world \<Rightarrow> pydict \<Rightarrow> pyval \<Rightarrow> pyval \<Rightarrow> exn \<Rightarrow> trace \<Rightarrow> unit outcome \<times> trace" where
  "install_failed orc cfg logfile error_tarfile e tr =
     and_then (writeline orc logfile (INSTALL_FAIL_MSG e) tr) (\<lambda>_ tr.
     and_then (perform orc (ReportFailure e)
                 (logged (LogRec (Log ERROR (INSTALL_FAIL_MSG e) [])) tr)) (\<lambda>_ tr.
     and_then (if truthy error_tarfile then perform orc (CreateLogTarfile error_tarfile cfg) tr
               else (Ok RNone, tr)) (\<lambda>_ tr.
     (Raise e, tr))))"

text \<open>The loop \<^verbatim>\<open>for pool in zfs.get_zpool_from_config(cfg)\<close>.\<close>

fun export_pools :: "world \<Rightarrow> string list \<Rightarrow> trace \<Rightarrow> unit outcome \<times> trace" where
  "export_pools orc [] tr = (Ok (), tr)"
| "export_pools orc (pool # rest) tr =
     and_then (perform orc (ZpoolExport pool)
                 (logged (LogRec (Log DEBUG ''Exporting ZFS zpool %s'' [PStr pool])) tr)) (\<lambda>_ tr.
     export_pools orc rest tr)"

text \<open>The branch \<^verbatim>\<open>elif workingd\<close> of the \<^verbatim>\<open>finally\<close> block.\<close>

definition teardown :: "world \<Rightarrow> pydict \<Rightarrow> workingdir \<Rightarrow> trace \<Rightarrow> unit outcome \<times> trace" where
  "teardown orc cfg workingd tr =
     and_then (perform orc (DoUmount (wd_target workingd)) tr) (\<lambda>_ tr.
     and_then (perform orc (GetIscsiDisks cfg) tr) (\<lambda>disks tr.
     and_then (if resp_truthy disks then perform orc RestartIscsi tr else (Ok RNone, tr)) (\<lambda>_ tr.
     and_then (perform orc (GetZpools cfg) tr) (\<lambda>pools tr.
     and_then (export_pools orc (resp_lines pools) tr) (\<lambda>_ tr.
     and_then (perform orc (Rmtree (wd_top workingd)) tr) (\<lambda>_ tr.
     (Ok (), tr)))))))"

text \<open>The \<^verbatim>\<open>finally\<close> block.\<close>

definition install_cleanup ::
  "world \<Rightarrow> pydict \<Rightarrow> pyval \<Rightarrow> pyval \<Rightarrow> workingdir option \<Rightarrow> trace \<Rightarrow> unit outcome \<times> trace" where
  "install_cleanup orc cfg instcfg logfile workingd tr =
     (case py_get_default instcfg ''save_install_log'' (PStr SAVE_INSTALL_LOG) of
        Inl e \<Rightarrow> (Raise e, tr)
      | Inr log_target_path \<Rightarrow>
          and_then (case workingd of
                      Some wd \<Rightarrow>
                        if truthy log_target_path
                        then copy_install_log orc logfile (wd_target wd) log_target_path tr
                        else (Ok (), tr)
                    | None \<Rightarrow> (Ok (), tr)) (\<lambda>_ tr.
          (case py_get_default instcfg ''unmount'' (PStr []) of
             Inl e \<Rightarrow> (Raise e, tr)
           | Inr unmount \<Rightarrow>
               if py_eq unmount (PStr ''disabled'') then
                 (Ok (), logged (LogRec (Log INFO
                            ''Skipping unmount: config disabled target unmounting'' [])) tr)
               else
                 (case workingd of
                    Some wd \<Rightarrow> teardown orc cfg wd tr
                  | None \<Rightarrow> (Ok (), tr)))))"

text \<open>\<^verbatim>\<open>apply_power_state(pstate)\<close>, in the parent process of the \<^verbatim>\<open>fork\<close>.\<close>

definition apply_power_state :: "world \<Rightarrow> pyval \<Rightarrow> trace \<Rightarrow> unit outcome \<times> trace" where
  "apply_power_state orc pstate tr =
     (case load_power_state pstate of
        Inl e \<Rightarrow> (Raise e, tr)
      | Inr None \<Rightarrow> (Ok (), tr)
      | Inr (Some cmd) \<Rightarrow>
          if cmd = [] then (Ok (), tr)
          else
            and_then (perform orc (ForkSubp cmd)
                        (logged (LogRec (Log INFO ''powering off with %s'' [PList cmd])) tr))
              (\<lambda>_ tr. (Ok (), tr)))"

text \<open>
  The lines of \<^verbatim>\<open>cmd_install\<close> from \<^verbatim>\<open>instcfg = cfg.get('install', {})\<close> to the dump
  of the configuration into \<^verbatim>\<open>write_files\<close>; \<^verbatim>\<open>cfg\<close> is the configuration after
  the merge, the sources and the migration of the proxy settings. The result is
  \<^verbatim>\<open>instcfg\<close>, \<^verbatim>\<open>logfile\<close>, \<^verbatim>\<open>error_tarfile\<close> and the configuration.
\<close>

definition install_config ::
  "world \<Rightarrow> pydict \<Rightarrow> trace \<Rightarrow> (pyval \<times> pyval \<times> pyval \<times> pydict) outcome \<times> trace" where
  "install_config orc cfg tr =
     (let instcfg = cfg_get cfg ''install'' (PDict []) in
      case py_get instcfg ''log_file'' of
        Inl e \<Rightarrow> (Raise e, tr)
      | Inr logfile \<Rightarrow>
          (case py_get instcfg ''error_tarfile'' of
             Inl e \<Rightarrow> (Raise e, tr)
           | Inr error_tarfile \<Rightarrow>
               (case py_get_default instcfg ''save_install_config'' (PStr SAVE_INSTALL_CONFIG) of
                  Inl e \<Rightarrow> (Raise e, tr)
                | Inr yaml_dump_file \<Rightarrow>
                    if \<not> truthy yaml_dump_file then (Ok (instcfg, logfile, error_tarfile, cfg), tr)
                    else
                      and_then (perform orc (DumpConfig cfg) tr) (\<lambda>content tr.
                      (case cfg_get cfg ''write_files'' (PDict []) of
                         PDict write_files \<Rightarrow>
                           (Ok (instcfg, logfile, error_tarfile,
                                AList.update ''write_files''
                                  (PDict (AList.update ''curtin_install_cfg''
                                     (PDict [(''path'', yaml_dump_file),
                                             (''permissions'', PStr ''0400''),
                                             (''owner'', PStr ''root:root''),
                                             (''content'', PStr (resp_str content))])
                                     write_files)) cfg), tr)
                       | _ \<Rightarrow> (Raise TypeError, tr))))))"

text \<open>
  \<^verbatim>\<open>try\<close>, \<^verbatim>\<open>except Exception\<close>, \<^verbatim>\<open>finally\<close>, and what follows them. The
  \<^verbatim>\<open>finally\<close> block runs after the \<^verbatim>\<open>try\<close> block returned or raised, and after the
  \<^verbatim>\<open>except\<close> clause when that ran; an exception of the \<^verbatim>\<open>finally\<close> block is the one
  that leaves; otherwise the pending exception leaves; otherwise
  \<^verbatim>\<open>apply_power_state\<close> and \<^verbatim>\<open>sys.exit(0)\<close> follow.
\<close>

definition install_except ::
  "world \<Rightarrow> pydict \<Rightarrow> pyval \<Rightarrow> pyval \<Rightarrow> unit outcome \<Rightarrow> trace \<Rightarrow> unit outcome \<times> trace" where
  "install_except orc cfg logfile error_tarfile res tr =
     (case res of
        Raise e \<Rightarrow>
          if is_Exception e then install_failed orc cfg logfile error_tarfile e tr
          else (Raise e, tr)
      | _ \<Rightarrow> (res, tr))"

definition install_finally ::
  "world \<Rightarrow> pydict \<Rightarrow> pyval \<Rightarrow> pyval \<Rightarrow> workingdir option \<Rightarrow> unit outcome \<Rightarrow> trace \<Rightarrow>
   unit outcome \<times> trace" where
  "install_finally orc cfg instcfg logfile workingd pending tr =
     (case pending of
        Diverge \<Rightarrow> (Diverge, tr)
      | _ \<Rightarrow>
          (case install_cleanup orc cfg instcfg logfile workingd tr of
             (Ok u, tr') \<Rightarrow>
               (case pending of
                  Raise e \<Rightarrow> (Raise e, tr')
                | _ \<Rightarrow>
                    and_then (apply_power_state orc (cfg_get cfg ''power_state'' PNone) tr')
                      (\<lambda>_ tr. (Raise (SystemExit 0), tr)))
           | (r, tr') \<Rightarrow> (r, tr')))"

definition install_guarded ::
  "world \<Rightarrow> install_args \<Rightarrow> pydict \<Rightarrow> pyval \<Rightarrow> pyval \<Rightarrow> pyval \<Rightarrow> trace \<Rightarrow> unit outcome \<times> trace" where
  "install_guarded orc args cfg instcfg logfile error_tarfile tr =
     (case install_try orc args cfg logfile tr of
        ((res, cfg', workingd), tr1) \<Rightarrow>
          (case install_except orc cfg' logfile error_tarfile res tr1 of
             (pending, tr2) \<Rightarrow> install_finally orc cfg' instcfg logfile workingd pending tr2))"

text \<open>\<^verbatim>\<open>cmd_install(args)\<close> from \<^verbatim>\<open>instcfg = cfg.get('install', {})\<close> on.\<close>

definition cmd_install :: "world \<Rightarrow> install_args \<Rightarrow> pydict \<Rightarrow> trace \<Rightarrow> unit outcome \<times> trace" where
  "cmd_install orc args cfg tr =
     and_then (install_config orc cfg tr) (\<lambda>(instcfg, logfile, error_tarfile, cfg) tr.
     and_then (clear_install_log orc logfile tr) (\<lambda>_ tr.
     and_then (perform orc (LoadReporter cfg) tr) (\<lambda>_ tr.
     and_then (writeline_and_stdout orc logfile (INSTALL_START_MSG (version_string args)) tr)
       (\<lambda>_ tr.
     install_guarded orc args cfg instcfg logfile error_tarfile tr))))"

section \<open>Observations on histories\<close>

text \<open>
  \<open>since tr tr'\<close>: the events of the history \<open>tr'\<close> after its beginning \<open>tr\<close>.
  \<open>silent tr tr'\<close>: the history \<open>tr'\<close> continues \<open>tr\<close> and no command is launched in
  between. \<open>teardown_actions\<close>: the actions of the teardown in a history, in their order.
  \<open>calm tr tr'\<close>: the history \<open>tr'\<close> continues \<open>tr\<close> with neither a launch nor an action
  of the teardown.
\<close>

definition since :: "trace \<Rightarrow> trace \<Rightarrow> trace" where
  "since tr tr' = drop (length tr) tr'"

definition silent :: "trace \<Rightarrow> trace \<Rightarrow> bool" where
  "silent tr tr' = (prefix tr tr' \<and> launched (since tr tr') = [])"

fun is_teardown :: "action \<Rightarrow> bool" where
  "is_teardown (DoUmount t) = True"
| "is_teardown RestartIscsi = True"
| "is_teardown (ZpoolExport p) = True"
| "is_teardown (Rmtree t) = True"
| "is_teardown _ = False"

definition teardown_actions :: "trace \<Rightarrow> action list" where
  "teardown_actions tr = filter is_teardown (map fst tr)"

fun is_popen :: "action \<Rightarrow> bool" where
  "is_popen (Popen n c s e) = True"
| "is_popen _ = False"

definition plain :: "action \<Rightarrow> bool" where
  "plain a = (\<not> is_popen a \<and> \<not> is_teardown a)"

definition calm :: "trace \<Rightarrow> trace \<Rightarrow> bool" where
  "calm tr tr' = (prefix tr tr' \<and> list_all (\<lambda>ev. plain (fst ev)) (since tr tr'))"

text \<open>
  The commands a dictionary of commands runs when none fails: the names in ascending
  order, each with its command when that is truthy. The same for a stage of the
  configuration.
\<close>

definition planned :: "pydict \<Rightarrow> string \<Rightarrow> (string \<times> pyval) list" where
  "planned d n =
     (case map_of d n of
        None \<Rightarrow> []
      | Some cmd \<Rightarrow> if truthy cmd then [(n, cmd)] else [])"

definition command_plan :: "pydict \<Rightarrow> (string \<times> pyval) list" where
  "command_plan d = concat (map (planned d) (sort (keys d)))"

definition stage_plan :: "pydict \<Rightarrow> pyval \<Rightarrow> (string \<times> pyval) list" where
  "stage_plan cfg name =
     (case cfg_get cfg (py_str name @ ''_commands'') (PDict []) of
        PDict d \<Rightarrow> command_plan d
      | _ \<Rightarrow> [])"

text \<open>
  A round of the reading loop that does not end it; what the loop has read when it ends,
  and the exit code it ends with.
\<close>

definition running :: "string \<times> int option \<Rightarrow> bool" where
  "running step = (case step of (data, poll) \<Rightarrow> \<not> (data = [] \<and> poll \<noteq> None))"

definition captured :: "(string \<times> int option) list \<Rightarrow> string" where
  "captured steps = concat (map fst (takeWhile running steps))"

definition exit_code :: "(string \<times> int option) list \<Rightarrow> int option" where
  "exit_code steps = (case dropWhile running steps of [] \<Rightarrow> None | (data, poll) # _ \<Rightarrow> poll)"

text \<open>
  \<open>raised\<close>: the exception an outcome raises. \<open>stops_at_failure r evs\<close>: in the events
  \<open>evs\<close>, after the launch of a command whose process ends with an exit code other than 0
  nothing is launched, and the exception raised is the error of that process
  (\<^verbatim>\<open>util.ProcessExecutionError\<close> with what was read and the exit code) or the exception
  of a later call. \<open>launches_stop evs\<close> is the first half alone.
\<close>

fun raised :: "'a outcome \<Rightarrow> exn option" where
  "raised (Raise e) = Some e"
| "raised _ = None"

definition stops_at_failure :: "exn option \<Rightarrow> trace \<Rightarrow> bool" where
  "stops_at_failure r evs =
     (\<forall>xs n cmd sh env steps rc ys.
        evs = xs @ (Popen n cmd sh env, RProc steps) # ys \<and> exit_code steps = Some rc \<and> rc \<noteq> 0 \<longrightarrow>
        launched ys = [] \<and>
        (r = Some (ProcessExecutionError (Some (captured steps)) (Some []) (Some rc) cmd None) \<or>
         (\<exists>a e. (a, RRaise e) \<in> set ys \<and> r = Some e)))"

definition launches_stop :: "trace \<Rightarrow> bool" where
  "launches_stop evs =
     (\<forall>xs n cmd sh env steps rc ys.
        evs = xs @ (Popen n cmd sh env, RProc steps) # ys \<and> exit_code steps = Some rc \<and> rc \<noteq> 0 \<longrightarrow>
        launched ys = [])"

text \<open>
  The whole teardown of a working directory, given the answers of
  \<^verbatim>\<open>iscsi.get_iscsi_disks_from_config\<close> and \<^verbatim>\<open>zfs.get_zpool_from_config\<close>.
\<close>

definition full_teardown :: "workingdir \<Rightarrow> resp \<Rightarrow> resp \<Rightarrow> action list" where
  "full_teardown wd disks pools =
     [DoUmount (wd_target wd)] @ (if resp_truthy disks then [RestartIscsi] else []) @
     map ZpoolExport (resp_lines pools) @ [Rmtree (wd_top wd)]"

section \<open>Sample worlds and boot configurations\<close>

text \<open>A world with the tool installed and one file, whatever is asked.\<close>

definition grub_world :: "string list \<Rightarrow> world" where
  "grub_world lines tr a =
     (case a of
        Which _ \<Rightarrow> RStr ''/sbin/kexec''
      | IsFile _ \<Rightarrow> RBool True
      | ReadLines _ \<Rightarrow> RLines lines
      | _ \<Rightarrow> RNone)"

text \<open>
  One entry after the line \<^verbatim>\<open>set default="3"\<close>, as \<^verbatim>\<open>grub-mkconfig\<close> writes it: the
  closing quote ends the line.
\<close>

definition grub_default_3 :: "string list" where
  "grub_default_3 =
     [''set default='' @ [CHR 0x22] @ ''3'' @ [CHR 0x22] @ [CHR 0x0A],
      ''menuentry 'A' {'' @ [CHR 0x0A],
      ''  linux /boot/vmlinuz root=/dev/sda1'' @ [CHR 0x0A],
      ''}'' @ [CHR 0x0A]]"

text \<open>The same with a letter right after the closing quote.\<close>

definition grub_out_of_range :: "string list" where
  "grub_out_of_range =
     [''set default='' @ [CHR 0x22] @ ''3'' @ [CHR 0x22] @ ''x'' @ [CHR 0x0A],
      ''menuentry 'A' {'' @ [CHR 0x0A],
      ''  linux /boot/vmlinuz root=/dev/sda1'' @ [CHR 0x0A],
      ''}'' @ [CHR 0x0A]]"


text \<open>Two entries after the line \<^verbatim>\<open>set default="1"\<close>, as \<^verbatim>\<open>grub-mkconfig\<close> writes it.\<close>

definition grub_two_entries :: "string list" where
  "grub_two_entries =
     [''set default='' @ [CHR 0x22] @ ''1'' @ [CHR 0x22] @ [CHR 0x0A],
      ''menuentry 'A' {'' @ [CHR 0x0A],
      ''  linux /boot/vmlinuz-a root=/dev/sda1 ro'' @ [CHR 0x0A],
      ''  initrd /boot/initrd-a'' @ [CHR 0x0A],
      ''}'' @ [CHR 0x0A],
      ''menuentry 'B' {'' @ [CHR 0x0A],
      ''  linux /boot/vmlinuz-b root=/dev/sdb1 ro quiet'' @ [CHR 0x0A],
      ''  initrd /boot/initrd-b'' @ [CHR 0x0A],
      ''}'' @ [CHR 0x0A]]"

text \<open>A world whose target file system is read-only: every write of a copy fails.\<close>

definition ro_target_world :: world where
  "ro_target_world tr a =
     (case a of
        IsFile _ \<Rightarrow> RBool True
      | TargetPath t p \<Rightarrow> RStr (t @ py_str p)
      | LoadFile _ \<Rightarrow> RStr ''curtin: Installation started.''
      | WriteFile _ _ \<Rightarrow> RRaise (OSError ''Read-only file system'')
      | _ \<Rightarrow> RNone)"

text \<open>A world that hands out the temporary directory \<^verbatim>\<open>/tmp/tmpx\<close> and has empty directories.\<close>

definition fresh_world :: world where
  "fresh_world tr a =
     (case a of
        Mkdtemp \<Rightarrow> RStr ''/tmp/tmpx''
      | Listdir _ \<Rightarrow> RLines []
      | _ \<Rightarrow> RNone)"

text \<open>
  A world where every command prints \<^verbatim>\<open>ok\<close> and exits with 0, and a reporting scope
  is named after its parent; a configuration with two stages.
\<close>

definition stage_world :: world where
  "stage_world tr a =
     (case a of
        Popen n cmd sh env \<Rightarrow> RProc [(''ok'', None), ([], Some 0)]
      | NewReportStack name desc parent \<Rightarrow> RStr (parent @ ''/'' @ name)
      | _ \<Rightarrow> RNone)"

definition early_commands :: pydict where
  "early_commands =
     [(''b'', PList [PStr ''echo'', PStr ''b'']), (''a'', PStr ''echo a''), (''c'', PNone)]"

definition two_stages :: pydict where
  "two_stages =
     [(''stages'', PList [PStr ''early'', PStr ''late'']),
      (''early_commands'', PDict early_commands),
      (''late_commands'', PDict [(''z'', PList [PStr ''true''])])]"

definition early_stage :: stage where
  "early_stage = \<lparr> st_name = PStr ''early'', st_commands = PDict early_commands, st_env = [],
                   st_install_log = None, st_reportstack = ''top'' \<rparr>"

definition sample_args :: install_args where
  "sample_args = \<lparr> args_reportstack = ''top'', os_environ = [], version_string = ''1.0'' \<rparr>"

section \<open>Properties of the value model\<close>

lemma py_eq_refl: "py_eq v v"
proof (induction v)
  case (PList xs)
  then show ?case by (simp add: list_all2_same)
next
  case (PDict d)
  have "\<And>k. k \<in> set (keys d) \<Longrightarrow> \<exists>v. map_of d k = Some v \<and> py_eq v v"
  proof -
    fix k assume "k \<in> set (keys d)"
    then have "k \<in> fst ` set d" by (simp add: keys_def)
    then obtain v where v: "map_of d k = Some v"
      by (metis domD dom_map_of_conv_image_fst)
    then have "(k, v) \<in> set d" by (rule map_of_SomeD)
    with PDict.IH have "py_eq v v" by fastforce
    with v show "\<exists>v. map_of d k = Some v \<and> py_eq v v" by blast
  qed
  then show ?case by (fastforce simp: list_all_iff)
qed simp_all


section \<open>Properties of proxy migration\<close>

lemma migrate_not_dict:
  assumes "map_of cfg ''proxy'' = Some v" "\<not> is_dict v"
  shows "migrate_proxy_settings cfg = Inl ValueError"
  using assms by (cases v) (simp_all add: migrate_proxy_settings_def)

lemma proxy_http_proxy_update:
  "proxy_http_proxy (AList.update ''proxy'' (PDict p) c) = map_of p ''http_proxy''"
  by (simp add: proxy_http_proxy_def update_conv')

lemma map_of_update_delete:
  "map_of (AList.update ''proxy'' v (AList.delete ''http_proxy'' c)) ''http_proxy'' = None"
  "map_of (AList.update ''proxy'' v c) ''proxy'' = Some v"
  "map_of (AList.update ''proxy'' v c) ''http_proxy'' = map_of c ''http_proxy''"
  by (simp_all add: update_conv' delete_conv')

lemma proxy_cases:
  assumes "\<not> (\<exists>v. map_of cfg ''proxy'' = Some v \<and> \<not> is_dict v)"
  obtains p where "(case map_of cfg ''proxy'' of None \<Rightarrow> PDict [] | Some q \<Rightarrow> q) = PDict p"
    and "proxy_http_proxy cfg = map_of p ''http_proxy''"
proof (cases "map_of cfg ''proxy''")
  case None
  then show ?thesis using that[of "[]"] by (simp add: proxy_http_proxy_def)
next
  case (Some q)
  with assms have "is_dict q" by simp
  then obtain p where "q = PDict p" by (cases q) simp_all
  with Some show ?thesis using that[of p] by (simp add: proxy_http_proxy_def)
qed

lemma migrate_no_legacy:
  assumes "(case map_of cfg ''proxy'' of None \<Rightarrow> PDict [] | Some q \<Rightarrow> q) = PDict p"
    and "map_of cfg ''http_proxy'' = None"
  shows "migrate_proxy_settings cfg = Inr (AList.update ''proxy'' (PDict p) cfg, [])"
  using assms unfolding migrate_proxy_settings_def by simp

lemma migrate_falsy:
  assumes "(case map_of cfg ''proxy'' of None \<Rightarrow> PDict [] | Some q \<Rightarrow> q) = PDict p"
    and "map_of cfg ''http_proxy'' = Some X" and "\<not> truthy X"
  shows "migrate_proxy_settings cfg =
    Inr (AList.update ''proxy'' (PDict p) (AList.delete ''http_proxy'' cfg), [])"
  using assms unfolding migrate_proxy_settings_def by simp

lemma migrate_adopt:
  assumes "(case map_of cfg ''proxy'' of None \<Rightarrow> PDict [] | Some q \<Rightarrow> q) = PDict p"
    and "map_of cfg ''http_proxy'' = Some X" and "truthy X"
    and "map_of p ''http_proxy'' = None \<or> (\<exists>Y. map_of p ''http_proxy'' = Some Y \<and> py_eq Y X)"
  shows "migrate_proxy_settings cfg =
    Inr (AList.update ''proxy'' (PDict (AList.update ''http_proxy'' X p))
           (AList.delete ''http_proxy'' cfg),
         [Log DEBUG ''legacy 'http_proxy' migrated to proxy/http_proxy'' []])"
  using assms unfolding migrate_proxy_settings_def by (auto simp: py_eq_refl)

lemma migrate_differs:
  assumes "(case map_of cfg ''proxy'' of None \<Rightarrow> PDict [] | Some q \<Rightarrow> q) = PDict p"
    and "map_of cfg ''http_proxy'' = Some X" and "truthy X"
    and "map_of p ''http_proxy'' = Some Y" and "\<not> py_eq Y X"
  shows "migrate_proxy_settings cfg =
    Inr (AList.update ''proxy'' (PDict p) (AList.delete ''http_proxy'' cfg),
         [Log WARN ''legacy http_proxy setting (%s) differs from proxy/http_proxy (%s), using %s''
            [X, Y, Y]])"
  using assms unfolding migrate_proxy_settings_def by simp

text \<open>
  Claim C1, as the code has it. Migration raises \<^verbatim>\<open>ValueError\<close> exactly when
  \<^verbatim>\<open>proxy\<close> is present and not a dictionary. Otherwise it returns, the top-level
  \<^verbatim>\<open>http_proxy\<close> key is absent afterwards and \<^verbatim>\<open>proxy\<close> is a dictionary. For a
  legacy value \<open>X\<close> that is truthy: if \<^verbatim>\<open>proxy.http_proxy\<close> is set to a \<open>Y\<close> that
  differs from \<open>X\<close>, \<open>Y\<close> is kept and a warning is logged; if it is absent or equal to
  \<open>X\<close>, it becomes \<open>X\<close> and no warning is logged. For a legacy value that is falsy
  (the guard \<^verbatim>\<open>if hp:\<close>), or with no legacy key, \<^verbatim>\<open>proxy.http_proxy\<close> is left as
  it was and nothing is logged.
\<close>

theorem migrate_proxy_settings_truthy_legacy:

 "if (\<exists>v. map_of cfg ''proxy'' = Some v \<and> \<not> is_dict v) then migrate_proxy_settings cfg = Inl ValueError
  else (\<exists>cfg' logs. migrate_proxy_settings cfg = Inr (cfg', logs) \<and>
     map_of cfg' ''http_proxy'' = None \<and> (\<exists>p. map_of cfg' ''proxy'' = Some (PDict p)) \<and>
     (case map_of cfg ''http_proxy'' of 
        None \<Rightarrow> proxy_http_proxy cfg' = proxy_http_proxy cfg \<and> logs = []
      | Some X \<Rightarrow> 
         if \<not> truthy X then proxy_http_proxy cfg' = proxy_http_proxy cfg \<and> logs = []
         else (case proxy_http_proxy cfg of
                 None \<Rightarrow> proxy_http_proxy cfg' = Some X \<and> \<not> list_ex is_warning logs
               | Some Y \<Rightarrow> if py_eq Y X then proxy_http_proxy cfg' = Some X \<and> \<not> list_ex is_warning logs
                           else proxy_http_proxy cfg' = Some Y \<and> list_ex is_warning logs)))"
proof (cases "\<exists>v. map_of cfg ''proxy'' = Some v \<and> \<not> is_dict v")
  case True
  then obtain v where "map_of cfg ''proxy'' = Some v" "\<not> is_dict v" by blast
  then have "migrate_proxy_settings cfg = Inl ValueError" by (rule migrate_not_dict)
  with True show ?thesis by simp
next
  case False
  then obtain p where p: "(case map_of cfg ''proxy'' of None \<Rightarrow> PDict [] | Some q \<Rightarrow> q) = PDict p"
    and php: "proxy_http_proxy cfg = map_of p ''http_proxy''"
    by (rule proxy_cases)
  show ?thesis
  proof (cases "map_of cfg ''http_proxy''")
    case None
    from migrate_no_legacy[OF p None] False None php show ?thesis
      by (simp add: proxy_http_proxy_update map_of_update_delete delete_conv')
  next
    case (Some X)
    show ?thesis
    proof (cases "truthy X")
      case f: False
      from migrate_falsy[OF p Some f] False Some f php show ?thesis
        by (simp add: proxy_http_proxy_update map_of_update_delete delete_conv')
    next
      case t: True
      show ?thesis
      proof (cases "map_of p ''http_proxy''")
        case None
        then have "map_of p ''http_proxy'' = None \<or> (\<exists>Y. map_of p ''http_proxy'' = Some Y \<and> py_eq Y X)"
          by simp
        from migrate_adopt[OF p Some t this] False Some t php None show ?thesis
          by (simp add: proxy_http_proxy_update map_of_update_delete update_conv' delete_conv')
      next
        case Y: (Some Y)
        show ?thesis
        proof (cases "py_eq Y X")
          case True
          with Y have "map_of p ''http_proxy'' = None \<or> (\<exists>Y. map_of p ''http_proxy'' = Some Y \<and> py_eq Y X)"
            by simp
          from migrate_adopt[OF p Some t this] False Some t php Y True show ?thesis
            by (simp add: proxy_http_proxy_update map_of_update_delete update_conv' delete_conv')
        next
          case ne: False
          from migrate_differs[OF p Some t Y ne] False Some t php Y ne show ?thesis
            by (simp add: proxy_http_proxy_update map_of_update_delete delete_conv')
        qed
      qed
    qed
  qed
qed

text \<open>
  The claim as stated fails for a falsy legacy value: with \<^verbatim>\<open>{'http_proxy': ''}\<close> and no
  \<^verbatim>\<open>proxy\<close>, the legacy value is not adopted.
\<close>

theorem migrate_proxy_settings_falsy_counterexample: "migrate_proxy_settings [(''http_proxy'', PStr '''')] = Inr ([(''proxy'', PDict [])], [])
  \<and> map_of [(''http_proxy'', PStr '''')] ''http_proxy'' = Some (PStr '''')
  \<and> proxy_http_proxy [(''http_proxy'', PStr '''')] = None
  \<and> proxy_http_proxy [(''proxy'', PDict [])] \<noteq> Some (PStr '''')"
  by (simp add: migrate_proxy_settings_def proxy_http_proxy_def)

theorem migrate_proxy_settings_truthy_legacy_witness: "migrate_proxy_settings [(''http_proxy'', PStr ''a''), (''proxy'', PDict [(''http_proxy'', PStr ''b'')])]
   = Inr ([(''proxy'', PDict [(''http_proxy'', PStr ''b'')])], [Log WARN
        ''legacy http_proxy setting (%s) differs from proxy/http_proxy (%s), using %s''
        [PStr ''a'', PStr ''b'', PStr ''b'']])"
  using migrate_proxy_settings_truthy_legacy[of "[(''http_proxy'', PStr ''a''), (''proxy'', PDict [(''http_proxy'', PStr ''b'')])]"]
  by (simp add: migrate_proxy_settings_def)

section \<open>Properties of power-state command synthesis\<close>

lemma show_nat_hd: "show_nat n \<noteq> [] \<and> hd (show_nat n) \<in> set ''0123456789''"
proof (induction n rule: show_nat.induct)
  case (1 n)
  show ?case
  proof (cases "n < 10")
    case True
    then have "n \<in> {0,1,2,3,4,5,6,7,8,9}" by auto
    then show ?thesis by (auto simp: show_nat.simps[of n])
  next
    case False
    with 1 show ?thesis by (simp add: show_nat.simps[of n])
  qed
qed

lemma show_nat_no_plus: "\<not> match_plus_digits (show_nat n)"
proof -
  from show_nat_hd[of n] obtain c cs where "show_nat n = c # cs" "c \<in> set ''0123456789''"
    by (cases "show_nat n") auto
  then show ?thesis by (auto simp: match_plus_digits_def split: list.splits)
qed

lemma match_plus_digits_str: "match_plus_digits (py_str v) \<Longrightarrow> \<exists>s. v = PStr s"
proof (cases v)
  case (PInt i)
  assume "match_plus_digits (py_str v)"
  with PInt show ?thesis using show_nat_no_plus
    by (auto simp: show_int_def match_plus_digits_def split: if_splits list.splits)
qed (auto simp: match_plus_digits_def split: list.splits if_splits)

lemma py_eq_now: "py_eq v (PStr s) \<longleftrightarrow> v = PStr s"
  by (cases v) auto

lemma resolve_delay_now: "resolve_delay (PStr ''now'') = Inr ''0''"
  by (simp add: resolve_delay_def)

lemma resolve_delay_plus:
  "is_digit e \<Longrightarrow> resolve_delay (PStr (CHR ''+'' # e # cs)) = Inr (e # cs @ ''m'')"
  by (simp add: resolve_delay_def match_plus_digits_def)

lemma resolve_delay_other:
  assumes "v \<noteq> PStr ''now''" and "\<not> match_plus_digits (py_str v)"
  shows "resolve_delay v = Inr (py_str v)"
  using assms by (simp add: resolve_delay_def py_eq_now)

lemma resolve_delay_total:
  "resolve_delay v = Inr
     (if v = PStr ''now'' then ''0''
      else (case v of
              PStr (c # e # cs) \<Rightarrow> if c = CHR ''+'' \<and> is_digit e then e # cs @ ''m'' else c # e # cs
            | _ \<Rightarrow> py_str v))"
proof (cases "v = PStr ''now''")
  case True
  then show ?thesis by (simp add: resolve_delay_now)
next
  case False
  show ?thesis
  proof (cases "match_plus_digits (py_str v)")
    case True
    then obtain s where s: "v = PStr s" using match_plus_digits_str by blast
    with True obtain e cs where "s = CHR ''+'' # e # cs" "is_digit e"
      by (auto simp: match_plus_digits_def split: list.splits)
    with s False show ?thesis by (simp add: resolve_delay_plus)
  next
    case nm: False
    from resolve_delay_other[OF False nm] False nm show ?thesis
      by (cases v) (auto simp: match_plus_digits_def split: list.splits)
  qed
qed

lemma load_power_state_ok:
  assumes "map_of d ''mode'' = Some (PStr m)" and "map_of opt_map m = Some opt"
    and "resolve_delay (case map_of d ''delay'' of None \<Rightarrow> PStr ''5'' | Some v \<Rightarrow> v) = Inr tok"
  shows "load_power_state (PDict d) =
    Inr (Some ([PStr ''sh'', PStr ''-c'', PStr shcmd, PStr ''curtin-poweroff'', PStr tok,
                PStr ''shutdown'', PStr opt, PStr ''now'']
               @ (case map_of d ''message'' of None \<Rightarrow> []
                  | Some msg \<Rightarrow> if truthy msg then [msg] else [])))"
  using assms by (simp add: load_power_state_def)

lemma opt_map_dom: "map_of opt_map m \<noteq> None \<longleftrightarrow> m \<in> {''halt'', ''poweroff'', ''reboot''}"
  by (simp add: opt_map_def)

lemma load_power_state_bad_mode:
  assumes "case map_of d ''mode'' of Some (PStr m) \<Rightarrow> m \<notin> {''halt'', ''poweroff'', ''reboot''} | _ \<Rightarrow> True"
  shows "load_power_state (PDict d) = Inl TypeError"
proof (cases "map_of d ''mode''")
  case None
  then show ?thesis by (simp add: load_power_state_def)
next
  case (Some v)
  show ?thesis
  proof (cases v)
    case (PStr m)
    with Some assms have "map_of opt_map m = None" using opt_map_dom[of m] by simp
    with Some PStr show ?thesis by (simp add: load_power_state_def)
  qed (use Some in \<open>simp_all add: load_power_state_def\<close>)
qed

text \<open>
  Claim C8, as the code has it. Power-state command synthesis returns \<^verbatim>\<open>None\<close> when
  there is no power-state configuration, raises \<^verbatim>\<open>TypeError\<close> when the configuration
  is not a dictionary or its mode is not one of halt, poweroff, reboot, and otherwise
  returns a command whose delay token is: \<^verbatim>\<open>"5"\<close> when no delay is given,
  \<^verbatim>\<open>"0"\<close> for \<^verbatim>\<open>"now"\<close>, the string without its plus sign and with \<^verbatim>\<open>m\<close>
  appended for a string that begins with a plus sign and a digit (whatever follows the
  digit), and \<^verbatim>\<open>str\<close> of the value for any other value (a string unchanged).
\<close>

theorem load_power_state_delay:
  "load_power_state PNone = Inr None \<and>
   (pstate \<noteq> PNone \<and> \<not> is_dict pstate \<longrightarrow> load_power_state pstate = Inl TypeError) \<and>
   ((case map_of d ''mode'' of Some (PStr m) \<Rightarrow> m \<notin> {''halt'', ''poweroff'', ''reboot''} | _ \<Rightarrow> True)
      \<longrightarrow> load_power_state (PDict d) = Inl TypeError) \<and>
   ((\<exists>m. map_of d ''mode'' = Some (PStr m) \<and> m \<in> {''halt'', ''poweroff'', ''reboot''}) \<longrightarrow>
      argv_delay (load_power_state (PDict d)) =
        Some (PStr (case map_of d ''delay'' of
                      None \<Rightarrow> ''5''
                    | Some v \<Rightarrow>
                        if v = PStr ''now'' then ''0''
                        else (case v of
                                PStr (c # e # cs) \<Rightarrow>
                                  if c = CHR ''+'' \<and> is_digit e then e # cs @ ''m'' else c # e # cs
                              | _ \<Rightarrow> py_str v))))"
proof (intro conjI impI)
  show "load_power_state PNone = Inr None" by (simp add: load_power_state_def)
next
  assume "pstate \<noteq> PNone \<and> \<not> is_dict pstate"
  then show "load_power_state pstate = Inl TypeError"
    by (cases pstate) (simp_all add: load_power_state_def)
next
  assume "case map_of d ''mode'' of Some (PStr m) \<Rightarrow> m \<notin> {''halt'', ''poweroff'', ''reboot''} | _ \<Rightarrow> True"
  then show "load_power_state (PDict d) = Inl TypeError" by (rule load_power_state_bad_mode)
next
  assume "\<exists>m. map_of d ''mode'' = Some (PStr m) \<and> m \<in> {''halt'', ''poweroff'', ''reboot''}"
  then obtain m where m: "map_of d ''mode'' = Some (PStr m)"
    and "m \<in> {''halt'', ''poweroff'', ''reboot''}" by blast
  then obtain opt where opt: "map_of opt_map m = Some opt" using opt_map_dom[of m] by auto
  let ?tok = "case map_of d ''delay'' of
                      None \<Rightarrow> ''5''
                    | Some v \<Rightarrow>
                        if v = PStr ''now'' then ''0''
                        else (case v of
                                PStr (c # e # cs) \<Rightarrow>
                                  if c = CHR ''+'' \<and> is_digit e then e # cs @ ''m'' else c # e # cs
                              | _ \<Rightarrow> py_str v)"
  have rd: "resolve_delay (case map_of d ''delay'' of None \<Rightarrow> PStr ''5'' | Some v \<Rightarrow> v) = Inr ?tok"
  proof (cases "map_of d ''delay''")
    case None
    then show ?thesis using resolve_delay_total[of "PStr ''5''"] by simp
  next
    case (Some v)
    then show ?thesis using resolve_delay_total[of v] by simp
  qed
  from load_power_state_ok[OF m opt rd]
  show "argv_delay (load_power_state (PDict d)) = Some (PStr ?tok)"
    by (simp add: argv_delay_def)
qed

text \<open>The theorem at \<^verbatim>\<open>{"mode": "reboot", "delay": "+5"}\<close>, a list and an unknown mode.\<close>

theorem load_power_state_delay_witness:
  "argv_delay (load_power_state (PDict [(''mode'', PStr ''reboot''), (''delay'', PStr ''+5'')]))
     = Some (PStr ''5m'') \<and>
   load_power_state (PList []) = Inl TypeError \<and>
   load_power_state (PDict [(''mode'', PStr ''boot'')]) = Inl TypeError"
  using load_power_state_delay[of "PList []" "[(''mode'', PStr ''reboot''), (''delay'', PStr ''+5'')]"]
    load_power_state_delay[of "PList []" "[(''mode'', PStr ''boot'')]"]
  by (simp add: is_digit_def)

text \<open>
  The claim as stated fails at the delay \<^verbatim>\<open>"+5x"\<close>: it is not of the form plus sign and
  digits, and it is not passed through unchanged.
\<close>

theorem load_power_state_prefix_counterexample:
  "argv_delay (load_power_state (PDict [(''mode'', PStr ''reboot''), (''delay'', PStr ''+5x'')]))
     = Some (PStr ''5xm'') \<and>
   \<not> list_all is_digit ''5x'' \<and> ''5xm'' \<noteq> ''+5x''"
  by (simp add: load_power_state_def argv_delay_def resolve_delay_def match_plus_digits_def
      is_digit_def opt_map_def)

section \<open>Properties of the kernel re-exec request\<close>

lemma apply_kexec_not_dict:
  assumes "kexec \<noteq> PNone" and "\<not> is_dict kexec"
  shows "apply_kexec orc kexec target tr = (Raise AttributeError, tr)"
  using assms by (cases kexec) (simp_all add: apply_kexec_def)

lemma apply_kexec_mode_off:
  assumes "\<not> py_eq (case map_of d ''mode'' of None \<Rightarrow> PNone | Some m \<Rightarrow> m) (PStr ''on'')"
  shows "apply_kexec orc (PDict d) target tr = (Ok False, tr)"
  using assms by (simp add: apply_kexec_def)

text \<open>
  Claim C6 on the code. A request that is neither \<^verbatim>\<open>None\<close> nor a dictionary makes
  \<^verbatim>\<open>apply_kexec\<close> raise \<^verbatim>\<open>AttributeError\<close> at \<^verbatim>\<open>kexec.get("mode")\<close>, before any
  action: the test that raises \<^verbatim>\<open>TypeError("kexec is not a dict.")\<close> stands after
  that call and is never reached by such a request. \<^verbatim>\<open>None\<close> and a dictionary whose
  mode is not \<^verbatim>\<open>"on"\<close> return \<^verbatim>\<open>False\<close> with no action.
\<close>

theorem apply_kexec_request_shape:
  "(kexec \<noteq> PNone \<and> \<not> is_dict kexec \<longrightarrow>
      apply_kexec orc kexec target tr = (Raise AttributeError, tr)) \<and>
   apply_kexec orc PNone target tr = (Ok False, tr) \<and>
   (map_of d ''mode'' \<noteq> Some (PStr ''on'') \<longrightarrow>
      apply_kexec orc (PDict d) target tr = (Ok False, tr))"
proof (intro conjI impI)
  assume "kexec \<noteq> PNone \<and> \<not> is_dict kexec"
  then show "apply_kexec orc kexec target tr = (Raise AttributeError, tr)"
    by (simp add: apply_kexec_not_dict)
next
  show "apply_kexec orc PNone target tr = (Ok False, tr)"
    by (simp add: apply_kexec_def)
next
  assume "map_of d ''mode'' \<noteq> Some (PStr ''on'')"
  then have "\<not> py_eq (case map_of d ''mode'' of None \<Rightarrow> PNone | Some m \<Rightarrow> m) (PStr ''on'')"
    by (cases "map_of d ''mode''") (simp_all add: py_eq_now)
  then show "apply_kexec orc (PDict d) target tr = (Ok False, tr)"
    by (rule apply_kexec_mode_off)
qed

text \<open>The requests \<^verbatim>\<open>"on"\<close>, \<^verbatim>\<open>["on"]\<close> and \<^verbatim>\<open>{"mode": "off"}\<close>.\<close>

theorem apply_kexec_request_shape_witness:
  "apply_kexec (\<lambda>tr a. RNone) (PStr ''on'') ''/t'' [] = (Raise AttributeError, []) \<and>
   apply_kexec (\<lambda>tr a. RNone) (PList [PStr ''on'']) ''/t'' [] = (Raise AttributeError, []) \<and>
   apply_kexec (\<lambda>tr a. RNone) (PDict [(''mode'', PStr ''off'')]) ''/t'' [] = (Ok False, [])"
  using apply_kexec_request_shape[of "PStr ''on''" "\<lambda>tr a. RNone" "''/t''" "[]" "[(''mode'', PStr ''off'')]"]
    apply_kexec_request_shape[of "PList [PStr ''on'']" "\<lambda>tr a. RNone" "''/t''" "[]" "[(''mode'', PStr ''off'')]"]
  by simp

section \<open>Properties of the default entry index\<close>

lemma default_entry_index_error:
  assumes "scan_grub 1 lines 0 [] = Inr (dflt, menu_lines)"
    and "menu_lines \<noteq> []" and "length menu_lines \<le> dflt"
  shows "default_entry target lines = Inl IndexError"
  using assms by (simp add: default_entry_def entry_range_def)

lemma default_entry_no_menuentry:
  assumes "scan_grub 1 lines 0 [] = Inr (dflt, [])"
  shows "default_entry target lines = Inr NoMenuentry"
  using assms by (simp add: default_entry_def)

lemma apply_kexec_on:
  assumes "map_of d ''mode'' = Some (PStr ''on'')"
  shows "apply_kexec orc (PDict d) target tr =
    and_then (read_grubcfg orc (os_path_join target ''boot/grub/grub.cfg'') tr) (load_entry orc target)"
  using assms by (simp add: apply_kexec_def kexec_load_def)

text \<open>
  There is no test of the index against the number of \<^verbatim>\<open>menuentry\<close> lines. When the
  request is enabled and the lines of \<^verbatim>\<open>grub.cfg\<close> were read, and the first loop leaves
  an index \<open>dflt\<close> and the \<^verbatim>\<open>menuentry\<close> line numbers: with at least one
  \<^verbatim>\<open>menuentry\<close> line and an index that is not below their number,
  \<^verbatim>\<open>menu_lines[default]\<close> raises \<^verbatim>\<open>IndexError\<close>, which \<^verbatim>\<open>apply_kexec\<close> does not
  catch and which is not logged; with no \<^verbatim>\<open>menuentry\<close> line the function logs an error
  and returns \<^verbatim>\<open>False\<close>.
\<close>

lemma apply_kexec_index_error:
  assumes "map_of d ''mode'' = Some (PStr ''on'')"
    and "read_grubcfg orc (os_path_join target ''boot/grub/grub.cfg'') tr = (Ok lines, tr')"
    and "scan_grub 1 lines 0 [] = Inr (dflt, menu_lines)"
  shows "(menu_lines \<noteq> [] \<and> length menu_lines \<le> dflt \<longrightarrow>
            apply_kexec orc (PDict d) target tr = (Raise IndexError, tr')) \<and>
         (menu_lines = [] \<longrightarrow>
            apply_kexec orc (PDict d) target tr =
              (Ok False,
               tr' @ [(LogRec (Log ERROR (''grub config file does not have a menuentry'' @ [CHR 0x0A]) []),
                       RNone)]))"
proof (intro conjI impI)
  assume "menu_lines \<noteq> [] \<and> length menu_lines \<le> dflt"
  then have "default_entry target lines = Inl IndexError"
    using assms(3) by (simp add: default_entry_index_error)
  then show "apply_kexec orc (PDict d) target tr = (Raise IndexError, tr')"
    using assms(1,2) by (simp add: apply_kexec_on and_then_def load_entry_def)
next
  assume "menu_lines = []"
  then have "default_entry target lines = Inr NoMenuentry"
    using assms(3) by (simp add: default_entry_no_menuentry)
  then show "apply_kexec orc (PDict d) target tr =
              (Ok False,
               tr' @ [(LogRec (Log ERROR (''grub config file does not have a menuentry'' @ [CHR 0x0A]) []),
                       RNone)])"
    using assms(1,2) by (simp add: apply_kexec_on and_then_def load_entry_def logged_def)
qed

lemma read_grubcfg_grub_world:
  "read_grubcfg (grub_world lines) p [] =
     (Ok lines, [(Which ''kexec'', RStr ''/sbin/kexec''), (IsFile (PStr p), RBool True),
                 (ReadLines p, RLines lines)])"
  by (simp add: read_grubcfg_def and_then_def perform_def call_def grub_world_def)

lemma scan_out_of_range: "scan_grub 1 grub_out_of_range 0 [] = Inr (3, [2])"
  by code_simp

text \<open>
  The index is read from a line only when a word character stands right after the closing
  quote. On the file with the line \<^verbatim>\<open>set default="3"x\<close> and one \<^verbatim>\<open>menuentry\<close> the
  index is 3 and \<^verbatim>\<open>IndexError\<close> is raised.
\<close>

lemma apply_kexec_index_error_letter:
  "fst (apply_kexec (grub_world grub_out_of_range) (PDict [(''mode'', PStr ''on'')]) ''/t'' [])
     = Raise IndexError"
  using apply_kexec_index_error[of "[(''mode'', PStr ''on'')]" "grub_world grub_out_of_range"
      "''/t''" "[]" grub_out_of_range _ 3 "[2]"]
    read_grubcfg_grub_world[of grub_out_of_range] scan_out_of_range
  by simp

lemma scan_default_3: "scan_grub 1 grub_default_3 0 [] = Inr (0, [2])"
  by code_simp

lemma default_entry_default_3:
  "default_entry ''/t'' grub_default_3 =
     Inr (BootEntry ''/boot/vmlinuz'' ''--append=root=/dev/sda1'' [])"
  by code_simp

text \<open>
  Claim C10 on the code. The claim is about a file whose last assignment
  \<^verbatim>\<open>set default="<digits>"\<close> names an index that is not below the number of
  \<^verbatim>\<open>menuentry\<close> lines, and says that \<^verbatim>\<open>IndexError\<close> is raised. On the file with the
  line \<^verbatim>\<open>set default="3"\<close> and one \<^verbatim>\<open>menuentry\<close> the first loop leaves the index 0:
  the pattern ends in \<^verbatim>\<open>\b\<close> after the closing quote, the newline that follows the quote
  is no word character, and the assignment is not read. \<^verbatim>\<open>apply_kexec\<close> resolves the
  entry 0, logs and calls \<^verbatim>\<open>kexec -l\<close> on its kernel and returns \<^verbatim>\<open>True\<close>; no
  \<^verbatim>\<open>IndexError\<close> is raised.
\<close>

theorem apply_kexec_default_assignment_unread:
  "scan_grub 1 grub_default_3 0 [] = Inr (0, [2]) \<and>
   apply_kexec (grub_world grub_default_3) (PDict [(''mode'', PStr ''on'')]) ''/t'' [] =
     (Ok True,
      [(Which ''kexec'', RStr ''/sbin/kexec''),
       (IsFile (PStr ''/t/boot/grub/grub.cfg''), RBool True),
       (ReadLines ''/t/boot/grub/grub.cfg'', RLines grub_default_3),
       (LogRec (Log DEBUG ''kexec -l %s %s %s''
                  [PStr ''/boot/vmlinuz'', PStr ''--append=root=/dev/sda1'', PStr []]), RNone),
       (Subp [''kexec'', ''-l'', ''/boot/vmlinuz'', ''--append=root=/dev/sda1'', []], RNone)])"
proof -
  have on: "map_of [(''mode'', PStr ''on'')] ''mode'' = Some (PStr ''on'')" by simp
  have p: "os_path_join ''/t'' ''boot/grub/grub.cfg'' = ''/t/boot/grub/grub.cfg''"
    by (simp add: os_path_join_def)
  have "apply_kexec (grub_world grub_default_3) (PDict [(''mode'', PStr ''on'')]) ''/t'' [] =
     (Ok True,
      [(Which ''kexec'', RStr ''/sbin/kexec''),
       (IsFile (PStr ''/t/boot/grub/grub.cfg''), RBool True),
       (ReadLines ''/t/boot/grub/grub.cfg'', RLines grub_default_3),
       (LogRec (Log DEBUG ''kexec -l %s %s %s''
                  [PStr ''/boot/vmlinuz'', PStr ''--append=root=/dev/sda1'', PStr []]), RNone),
       (Subp [''kexec'', ''-l'', ''/boot/vmlinuz'', ''--append=root=/dev/sda1'', []], RNone)])"
    by (simp add: apply_kexec_on[OF on] p read_grubcfg_grub_world and_then_def
        load_entry_def default_entry_default_3 logged_def perform_def call_def grub_world_def)
  with scan_default_3 show ?thesis by blast
qed

section \<open>Properties of the default boot entry\<close>

















text \<open>
  On the file with \<^verbatim>\<open>set default="1"\<close> and two entries the first loop leaves the index 0:
  the pattern ends in \<^verbatim>\<open>\b\<close> after the closing quote, and a newline follows the quote.
  The entry resolved is the first one.
\<close>

lemma grub_two_entries_first_entry:
  "scan_grub 1 grub_two_entries 0 [] = Inr (0, [2, 6]) \<and>
   default_entry ''/t'' grub_two_entries =
     Inr (BootEntry ''/boot/vmlinuz-a'' ''--append=root=/dev/sda1 ro'' ''--initrd=/boot/initrd-a'')"
  by code_simp

section \<open>Properties of the install log\<close>

lemma perform_simps:
  "perform orc a tr =
     (case orc tr a of RRaise e \<Rightarrow> (Raise e, tr @ [(a, RRaise e)])
      | r \<Rightarrow> (Ok r, tr @ [(a, r)]))"
  by (simp add: perform_def call_def split: resp.splits)

lemma perform_ok: "\<not> raises (orc tr a) \<Longrightarrow> perform orc a tr = (Ok (orc tr a), tr @ [(a, orc tr a)])"
  by (cases "orc tr a") (simp_all add: perform_def call_def)

lemma perform_raise: "orc tr a = RRaise e \<Longrightarrow> perform orc a tr = (Raise e, tr @ [(a, RRaise e)])"
  by (simp add: perform_def call_def)

lemma and_then_simps [simp]:
  "and_then (Ok x, tr) f = f x tr"
  "and_then (Raise e, tr) f = (Raise e, tr)"
  "and_then (Diverge, tr) f = (Diverge, tr)"
  by (simp_all add: and_then_def)

lemma clear_install_log_ok:
  assumes "\<not> raises (orc tr (EnsureDir (PStr (dirname_str s))))"
    and "\<forall>e. orc (tr @ [(EnsureDir (PStr (dirname_str s)), orc tr (EnsureDir (PStr (dirname_str s))))])
               (OpenTruncate (PStr s)) = RRaise e \<longrightarrow> is_Exception e"
  shows "clear_install_log orc (PStr s) tr =
    (Ok (), tr @ [(EnsureDir (PStr (dirname_str s)), orc tr (EnsureDir (PStr (dirname_str s)))),
                  (OpenTruncate (PStr s),
                   orc (tr @ [(EnsureDir (PStr (dirname_str s)), orc tr (EnsureDir (PStr (dirname_str s))))])
                       (OpenTruncate (PStr s)))])"
  using assms
  by (simp add: clear_install_log_def perform_ok call_def split: resp.splits)

lemma clear_install_log_ensure_dir_raises:
  assumes "orc tr (EnsureDir (PStr (dirname_str s))) = RRaise e"
  shows "clear_install_log orc (PStr s) tr = (Raise e, tr @ [(EnsureDir (PStr (dirname_str s)), RRaise e)])"
  using assms by (simp add: clear_install_log_def perform_raise)

lemma writeline_ok:
  assumes "\<forall>e. orc tr (AppendLine f (with_newline out)) = RRaise e \<longrightarrow> is_OSError e"
  shows "writeline orc f out tr =
    (Ok (), tr @ [(AppendLine f (with_newline out), orc tr (AppendLine f (with_newline out)))])"
  using assms by (simp add: writeline_def call_def split: resp.splits)

lemma copy_install_log_falsy:
  assumes "\<not> truthy logfile"
  shows "copy_install_log orc logfile target log_target_path tr =
    (Ok (), tr @ [(LogRec (Log WARN ''Cannot copy curtin install log \"%s\" to target.'' [logfile]), RNone)])"
  using assms by (simp add: copy_install_log_def logged_def)

lemma copy_install_log_missing:
  assumes "truthy logfile" and "\<not> raises (orc tr (IsFile logfile))"
    and "\<not> resp_truthy (orc tr (IsFile logfile))"
  shows "copy_install_log orc logfile target log_target_path tr =
    (Ok (), tr @ [(IsFile logfile, orc tr (IsFile logfile)),
                  (LogRec (Log WARN ''Cannot copy curtin install log \"%s\" to target.  file does not exist.''
                     [logfile]), RNone)])"
  using assms by (simp add: copy_install_log_def logged_def perform_ok)

lemma copy_install_log_write_raises:
  assumes "truthy logfile"
    and "\<forall>h. resp_truthy (orc h (IsFile logfile)) \<and> \<not> raises (orc h (IsFile logfile))"
    and "\<forall>h. \<not> raises (orc h (TargetPath target log_target_path))"
    and "\<forall>h. \<not> raises (orc h (LoadFile logfile))"
    and "\<forall>h f c. orc h (WriteFile f c) = RRaise e"
  shows "fst (copy_install_log orc logfile target log_target_path tr) = Raise e"
  using assms
  by (simp add: copy_install_log_def logged_def perform_ok perform_raise)

lemma copy_install_log_load_raises:
  assumes "truthy logfile"
    and "\<forall>h. resp_truthy (orc h (IsFile logfile)) \<and> \<not> raises (orc h (IsFile logfile))"
    and "\<forall>h. \<not> raises (orc h (TargetPath target log_target_path))"
    and "\<forall>h. orc h (LoadFile logfile) = RRaise e"
  shows "fst (copy_install_log orc logfile target log_target_path tr) = Raise e"
  using assms
  by (simp add: copy_install_log_def logged_def perform_ok perform_raise)

text \<open>
  Claim C7, as the code has it. Clearing the log: once the log directory is there, any
  \<^verbatim>\<open>Exception\<close> of the \<^verbatim>\<open>open\<close> is dropped and nothing is logged; an exception of
  \<^verbatim>\<open>util.ensure_dir\<close> is raised. \<^verbatim>\<open>writeline\<close>: an \<^verbatim>\<open>OSError\<close> of opening or
  writing is dropped and nothing is logged. Copying the log to the target: a falsy log
  path and a missing log file are logged as warnings and the function returns; an
  exception of reading the log or of writing the copy is raised.
\<close>

theorem logging_failures_amended:
  "(\<not> raises (orc tr (EnsureDir (PStr (dirname_str s)))) \<and>
    (\<forall>e. orc (tr @ [(EnsureDir (PStr (dirname_str s)), orc tr (EnsureDir (PStr (dirname_str s))))])
            (OpenTruncate (PStr s)) = RRaise e \<longrightarrow> is_Exception e) \<longrightarrow>
      clear_install_log orc (PStr s) tr =
        (Ok (), tr @ [(EnsureDir (PStr (dirname_str s)), orc tr (EnsureDir (PStr (dirname_str s)))),
                      (OpenTruncate (PStr s),
                       orc (tr @ [(EnsureDir (PStr (dirname_str s)),
                                   orc tr (EnsureDir (PStr (dirname_str s))))])
                           (OpenTruncate (PStr s)))])) \<and>
   (orc tr (EnsureDir (PStr (dirname_str s))) = RRaise e \<longrightarrow>
      fst (clear_install_log orc (PStr s) tr) = Raise e) \<and>
   ((\<forall>e. orc tr (AppendLine f (with_newline out)) = RRaise e \<longrightarrow> is_OSError e) \<longrightarrow>
      writeline orc f out tr =
        (Ok (), tr @ [(AppendLine f (with_newline out), orc tr (AppendLine f (with_newline out)))])) \<and>
   (\<not> truthy logfile \<longrightarrow>
      copy_install_log orc logfile target log_target_path tr =
        (Ok (), tr @ [(LogRec (Log WARN ''Cannot copy curtin install log \"%s\" to target.''
                                 [logfile]), RNone)])) \<and>
   (truthy logfile \<and> \<not> raises (orc tr (IsFile logfile)) \<and> \<not> resp_truthy (orc tr (IsFile logfile)) \<longrightarrow>
      copy_install_log orc logfile target log_target_path tr =
        (Ok (), tr @ [(IsFile logfile, orc tr (IsFile logfile)),
                      (LogRec (Log WARN
                         ''Cannot copy curtin install log \"%s\" to target.  file does not exist.''
                         [logfile]), RNone)])) \<and>
   (truthy logfile \<and>
    (\<forall>h. resp_truthy (orc h (IsFile logfile)) \<and> \<not> raises (orc h (IsFile logfile))) \<and>
    (\<forall>h. \<not> raises (orc h (TargetPath target log_target_path))) \<and>
    ((\<forall>h. orc h (LoadFile logfile) = RRaise e) \<or>
     (\<forall>h. \<not> raises (orc h (LoadFile logfile))) \<and> (\<forall>h f c. orc h (WriteFile f c) = RRaise e)) \<longrightarrow>
      fst (copy_install_log orc logfile target log_target_path tr) = Raise e)"
proof (intro conjI impI)
  assume "\<not> raises (orc tr (EnsureDir (PStr (dirname_str s)))) \<and>
    (\<forall>e. orc (tr @ [(EnsureDir (PStr (dirname_str s)), orc tr (EnsureDir (PStr (dirname_str s))))])
            (OpenTruncate (PStr s)) = RRaise e \<longrightarrow> is_Exception e)"
  then show "clear_install_log orc (PStr s) tr =
        (Ok (), tr @ [(EnsureDir (PStr (dirname_str s)), orc tr (EnsureDir (PStr (dirname_str s)))),
                      (OpenTruncate (PStr s),
                       orc (tr @ [(EnsureDir (PStr (dirname_str s)),
                                   orc tr (EnsureDir (PStr (dirname_str s))))])
                           (OpenTruncate (PStr s)))])"
    using clear_install_log_ok by blast
next
  assume "orc tr (EnsureDir (PStr (dirname_str s))) = RRaise e"
  then show "fst (clear_install_log orc (PStr s) tr) = Raise e"
    by (simp add: clear_install_log_ensure_dir_raises)
next
  assume "\<forall>e. orc tr (AppendLine f (with_newline out)) = RRaise e \<longrightarrow> is_OSError e"
  then show "writeline orc f out tr =
        (Ok (), tr @ [(AppendLine f (with_newline out), orc tr (AppendLine f (with_newline out)))])"
    by (rule writeline_ok)
next
  assume "\<not> truthy logfile"
  then show "copy_install_log orc logfile target log_target_path tr =
        (Ok (), tr @ [(LogRec (Log WARN ''Cannot copy curtin install log \"%s\" to target.''
                                 [logfile]), RNone)])"
    by (rule copy_install_log_falsy)
next
  assume "truthy logfile \<and> \<not> raises (orc tr (IsFile logfile)) \<and> \<not> resp_truthy (orc tr (IsFile logfile))"
  then show "copy_install_log orc logfile target log_target_path tr =
        (Ok (), tr @ [(IsFile logfile, orc tr (IsFile logfile)),
                      (LogRec (Log WARN
                         ''Cannot copy curtin install log \"%s\" to target.  file does not exist.''
                         [logfile]), RNone)])"
    by (simp add: copy_install_log_missing)
next
  assume h: "truthy logfile \<and>
    (\<forall>h. resp_truthy (orc h (IsFile logfile)) \<and> \<not> raises (orc h (IsFile logfile))) \<and>
    (\<forall>h. \<not> raises (orc h (TargetPath target log_target_path))) \<and>
    ((\<forall>h. orc h (LoadFile logfile) = RRaise e) \<or>
     (\<forall>h. \<not> raises (orc h (LoadFile logfile))) \<and> (\<forall>h f c. orc h (WriteFile f c) = RRaise e))"
  then consider "\<forall>h. orc h (LoadFile logfile) = RRaise e"
    | "(\<forall>h. \<not> raises (orc h (LoadFile logfile)))" "(\<forall>h f c. orc h (WriteFile f c) = RRaise e)"
    by blast
  then show "fst (copy_install_log orc logfile target log_target_path tr) = Raise e"
  proof cases
    case 1
    with h show ?thesis using copy_install_log_load_raises by blast
  next
    case 2
    with h show ?thesis using copy_install_log_write_raises by blast
  qed
qed

text \<open>
  The claim as stated fails where the target is read-only: the log file is there, writing its
  copy raises \<^verbatim>\<open>OSError\<close>, and \<^verbatim>\<open>copy_install_log\<close> raises it.
\<close>

theorem copy_install_log_escalates_counterexample:
  "fst (copy_install_log ro_target_world (PStr ''/var/log/curtin/install.log'') ''/tmp/t/target''
          (PStr ''/root/curtin-install.log'') [])
     = Raise (OSError ''Read-only file system'')"
  by (simp add: copy_install_log_def logged_def perform_def call_def ro_target_world_def)

text \<open>The theorem in the same world: clearing and writing a line succeed, the copy raises.\<close>

theorem logging_failures_amended_witness:
  "fst (clear_install_log ro_target_world (PStr ''/var/log/curtin/install.log'') []) = Ok () \<and>
   fst (writeline ro_target_world (PStr ''/var/log/curtin/install.log'') ''started'' []) = Ok () \<and>
   fst (copy_install_log ro_target_world (PStr []) ''/t'' (PStr ''/root/curtin-install.log'') [])
     = Ok () \<and>
   fst (copy_install_log ro_target_world (PStr ''/var/log/curtin/install.log'') ''/t''
          (PStr ''/root/curtin-install.log'') [])
     = Raise (OSError ''Read-only file system'')"
  using logging_failures_amended[of ro_target_world "[]" "''/var/log/curtin/install.log''"
      "OSError ''Read-only file system''" "PStr ''/var/log/curtin/install.log''" "''started''"
      "PStr ''/var/log/curtin/install.log''" "''/t''" "PStr ''/root/curtin-install.log''"]
    logging_failures_amended[of ro_target_world "[]" "''/var/log/curtin/install.log''"
      "OSError ''Read-only file system''" "PStr ''/var/log/curtin/install.log''" "''started''"
      "PStr []" "''/t''" "PStr ''/root/curtin-install.log''"]
  by (simp add: ro_target_world_def)

section \<open>Properties of the working directory\<close>

lemma created_files_append [simp]: "created_files (xs @ ys) = created_files xs @ created_files ys"
  by (induction xs) (auto split: option.splits)

lemma touch_all_ok:
  assumes "touch_all orc fs tr = (Ok u, tr')"
  shows "\<exists>evs. tr' = tr @ evs \<and> created_files evs = fs"
  using assms
proof (induction fs arbitrary: tr)
  case Nil
  then show ?case by simp
next
  case (Cons f fs)
  show ?case
  proof (cases "raises (orc tr (Touch f))")
    case True
    then obtain e where "orc tr (Touch f) = RRaise e" by (cases "orc tr (Touch f)") auto
    with Cons.prems show ?thesis by (simp add: perform_raise)
  next
    case False
    with Cons.prems have "touch_all orc fs (tr @ [(Touch f, orc tr (Touch f))]) = (Ok u, tr')"
      by (simp add: perform_ok)
    from Cons.IH[OF this] obtain evs where
      "tr' = (tr @ [(Touch f, orc tr (Touch f))]) @ evs" "created_files evs = fs" by blast
    with False show ?thesis
      by (intro exI[of _ "(Touch f, orc tr (Touch f)) # evs"]) simp
  qed
qed

lemma and_then_Ok:
  assumes "and_then m f = (Ok y, tr')"
  obtains x tr1 where "m = (Ok x, tr1)" "f x tr1 = (Ok y, tr')"
  using assms by (cases m; cases "fst m") (auto simp: and_then_def)

lemma perform_Ok:
  assumes "perform orc a tr = (Ok r, tr')"
  shows "tr' = tr @ [(a, r)] \<and> \<not> raises r"
proof -
  have nr: "\<not> raises (orc tr a)"
  proof
    assume "raises (orc tr a)"
    then obtain e where "orc tr a = RRaise e" by (cases "orc tr a") auto
    then have "perform orc a tr = (Raise e, tr @ [(a, RRaise e)])" by (rule perform_raise)
    with assms show False by simp
  qed
  then have "perform orc a tr = (Ok (orc tr a), tr @ [(a, orc tr a)])" by (rule perform_ok)
  with assms nr show ?thesis by auto
qed

lemma ensure_target_Ok:
  assumes "ensure_target orc t tr = (Ok u, tr')"
  shows "\<exists>evs. tr' = tr @ evs \<and> created_files evs = []"
proof (cases "raises (orc tr (EnsureDir (PStr t)))")
  case True
  then obtain e where "orc tr (EnsureDir (PStr t)) = RRaise e"
    by (cases "orc tr (EnsureDir (PStr t))") auto
  with assms show ?thesis by (simp add: ensure_target_def call_def split: if_splits)
next
  case False
  let ?tr1 = "tr @ [(EnsureDir (PStr t), orc tr (EnsureDir (PStr t)))]"
  from False assms have
    "and_then (perform orc (Listdir (PStr t)) ?tr1)
       (\<lambda>l tr. if resp_lines l \<noteq> [] then (Raise ValueError, tr) else (Ok (), tr)) = (Ok u, tr')"
    by (cases "orc tr (EnsureDir (PStr t))") (simp_all add: ensure_target_def call_def)
  then obtain l tr2 where p: "perform orc (Listdir (PStr t)) ?tr1 = (Ok l, tr2)"
    and r: "(if resp_lines l \<noteq> [] then (Raise ValueError, tr2) else (Ok (), tr2)) = (Ok u, tr')"
    by (rule and_then_Ok)
  from r have "tr' = tr2" by (auto split: if_splits)
  with perform_Ok[OF p] show ?thesis by simp
qed

lemma os_path_join_relative:
  assumes "b \<noteq> []" and "hd b \<noteq> CHR ''/''"
  shows "os_path_join a b = (if a = [] \<or> last a = CHR ''/'' then a else a @ ''/'') @ b"
  using assms by (simp add: os_path_join_def)

lemma state_paths_distinct:
  "os_path_join d ''interfaces'' \<noteq> os_path_join d ''config''"
  "os_path_join d ''interfaces'' \<noteq> os_path_join d ''fstab''"
  "os_path_join d ''interfaces'' \<noteq> os_path_join d ''network_config''"
  "os_path_join d ''interfaces'' \<noteq> os_path_join d ''network_state''"
  by (simp_all add: os_path_join_relative)

text \<open>
  Claim C4 on the code. When \<^verbatim>\<open>WorkingDir(config)\<close> returns, the files it created are
  the configuration snapshot (written, then touched) and the placeholders for fstab,
  network config and network state. The interfaces file, whose path it computes and hands
  to every command as \<^verbatim>\<open>OUTPUT_INTERFACES\<close>, is not among them: the loop that touches
  the placeholders leaves \<^verbatim>\<open>interfaces_f\<close> out.
\<close>

theorem WorkingDir_init_created:
  assumes "WorkingDir_init orc config tr = (Ok wd, tr')"
  shows "\<exists>evs. tr' = tr @ evs \<and>
           created_files evs = [wd_config_file wd, wd_config_file wd, wd_fstab wd, wd_netconf wd,
                                wd_netstate wd] \<and>
           wd_interfaces wd \<notin> set (created_files evs)"
proof -
  from assms[unfolded WorkingDir_init_def]
  obtain t tr1 where p1: "perform orc Mkdtemp tr = (Ok t, tr1)" and
    r1: "(let top_d = (case t of RStr s \<Rightarrow> s | _ \<Rightarrow> []);
         state_d = os_path_join top_d ''state'';
         scratch_d = os_path_join top_d ''scratch''
     in
     and_then (perform orc (Mkdir state_d) tr1) (\<lambda>_ tr.
     and_then (perform orc (Mkdir scratch_d) tr) (\<lambda>_ tr.
     case resolve_target config top_d of
       Inl e \<Rightarrow> (Raise e, tr)
     | Inr target_d \<Rightarrow>
         and_then (ensure_target orc target_d tr) (\<lambda>_ tr.
         let netconf_f = os_path_join state_d ''network_config'';
             netstate_f = os_path_join state_d ''network_state'';
             interfaces_f = os_path_join state_d ''interfaces'';
             config_f = os_path_join state_d ''config'';
             fstab_f = os_path_join state_d ''fstab''
         in
         and_then (perform orc (JsonDump config_f config) tr) (\<lambda>_ tr.
         and_then (touch_all orc [config_f, fstab_f, netconf_f, netstate_f] tr) (\<lambda>_ tr.
         (Ok \<lparr> wd_scratch = scratch_d, wd_target = target_d, wd_top = top_d,
                wd_interfaces = interfaces_f, wd_netconf = netconf_f,
                wd_netstate = netstate_f, wd_fstab = fstab_f,
                wd_config_file = config_f \<rparr>, tr))))))) = (Ok wd, tr')"
    by (rule and_then_Ok)
  define top_d where "top_d = (case t of RStr s \<Rightarrow> s | _ \<Rightarrow> [])"
  define state_d where "state_d = os_path_join top_d ''state''"
  define scratch_d where "scratch_d = os_path_join top_d ''scratch''"
  from r1 obtain x2 tr2 where p2: "perform orc (Mkdir state_d) tr1 = (Ok x2, tr2)" and
    r2: "and_then (perform orc (Mkdir scratch_d) tr2) (\<lambda>_ tr.
     case resolve_target config top_d of
       Inl e \<Rightarrow> (Raise e, tr)
     | Inr target_d \<Rightarrow>
         and_then (ensure_target orc target_d tr) (\<lambda>_ tr.
         and_then (perform orc (JsonDump (os_path_join state_d ''config'') config) tr) (\<lambda>_ tr.
         and_then (touch_all orc [os_path_join state_d ''config'', os_path_join state_d ''fstab'',
                     os_path_join state_d ''network_config'', os_path_join state_d ''network_state''] tr)
           (\<lambda>_ tr.
         (Ok \<lparr> wd_scratch = scratch_d, wd_target = target_d, wd_top = top_d,
                wd_interfaces = os_path_join state_d ''interfaces'',
                wd_netconf = os_path_join state_d ''network_config'',
                wd_netstate = os_path_join state_d ''network_state'',
                wd_fstab = os_path_join state_d ''fstab'',
                wd_config_file = os_path_join state_d ''config'' \<rparr>, tr))))) = (Ok wd, tr')"
    unfolding Let_def top_d_def[symmetric] state_d_def[symmetric] scratch_d_def[symmetric]
    by (rule and_then_Ok)
  from r2 obtain x3 tr3 where p3: "perform orc (Mkdir scratch_d) tr2 = (Ok x3, tr3)" and
    r3: "(case resolve_target config top_d of
       Inl e \<Rightarrow> (Raise e, tr3)
     | Inr target_d \<Rightarrow>
         and_then (ensure_target orc target_d tr3) (\<lambda>_ tr.
         and_then (perform orc (JsonDump (os_path_join state_d ''config'') config) tr) (\<lambda>_ tr.
         and_then (touch_all orc [os_path_join state_d ''config'', os_path_join state_d ''fstab'',
                     os_path_join state_d ''network_config'', os_path_join state_d ''network_state''] tr)
           (\<lambda>_ tr.
         (Ok \<lparr> wd_scratch = scratch_d, wd_target = target_d, wd_top = top_d,
                wd_interfaces = os_path_join state_d ''interfaces'',
                wd_netconf = os_path_join state_d ''network_config'',
                wd_netstate = os_path_join state_d ''network_state'',
                wd_fstab = os_path_join state_d ''fstab'',
                wd_config_file = os_path_join state_d ''config'' \<rparr>, tr))))) = (Ok wd, tr')"
    by (rule and_then_Ok)
  from r3 obtain target_d where tg: "resolve_target config top_d = Inr target_d"
    by (cases "resolve_target config top_d") auto
  from r3[unfolded tg sum.case] obtain x4 tr4 where
    p4: "ensure_target orc target_d tr3 = (Ok x4, tr4)" and
    r4: "and_then (perform orc (JsonDump (os_path_join state_d ''config'') config) tr4) (\<lambda>_ tr.
         and_then (touch_all orc [os_path_join state_d ''config'', os_path_join state_d ''fstab'',
                     os_path_join state_d ''network_config'', os_path_join state_d ''network_state''] tr)
           (\<lambda>_ tr.
         (Ok \<lparr> wd_scratch = scratch_d, wd_target = target_d, wd_top = top_d,
                wd_interfaces = os_path_join state_d ''interfaces'',
                wd_netconf = os_path_join state_d ''network_config'',
                wd_netstate = os_path_join state_d ''network_state'',
                wd_fstab = os_path_join state_d ''fstab'',
                wd_config_file = os_path_join state_d ''config'' \<rparr>, tr))) = (Ok wd, tr')"
    by (rule and_then_Ok)
  from r4 obtain x5 tr5 where
    p5: "perform orc (JsonDump (os_path_join state_d ''config'') config) tr4 = (Ok x5, tr5)" and
    r5: "and_then (touch_all orc [os_path_join state_d ''config'', os_path_join state_d ''fstab'',
                     os_path_join state_d ''network_config'', os_path_join state_d ''network_state''] tr5)
           (\<lambda>_ tr.
         (Ok \<lparr> wd_scratch = scratch_d, wd_target = target_d, wd_top = top_d,
                wd_interfaces = os_path_join state_d ''interfaces'',
                wd_netconf = os_path_join state_d ''network_config'',
                wd_netstate = os_path_join state_d ''network_state'',
                wd_fstab = os_path_join state_d ''fstab'',
                wd_config_file = os_path_join state_d ''config'' \<rparr>, tr)) = (Ok wd, tr')"
    by (rule and_then_Ok)
  from r5 obtain x6 tr6 where
    p6: "touch_all orc [os_path_join state_d ''config'', os_path_join state_d ''fstab'',
                     os_path_join state_d ''network_config'', os_path_join state_d ''network_state''] tr5
          = (Ok x6, tr6)" and
    r6: "(Ok \<lparr> wd_scratch = scratch_d, wd_target = target_d, wd_top = top_d,
                wd_interfaces = os_path_join state_d ''interfaces'',
                wd_netconf = os_path_join state_d ''network_config'',
                wd_netstate = os_path_join state_d ''network_state'',
                wd_fstab = os_path_join state_d ''fstab'',
                wd_config_file = os_path_join state_d ''config'' \<rparr>, tr6) = (Ok wd, tr')"
    by (rule and_then_Ok)
  from r6 have wd: "wd = \<lparr> wd_scratch = scratch_d, wd_target = target_d, wd_top = top_d,
                wd_interfaces = os_path_join state_d ''interfaces'',
                wd_netconf = os_path_join state_d ''network_config'',
                wd_netstate = os_path_join state_d ''network_state'',
                wd_fstab = os_path_join state_d ''fstab'',
                wd_config_file = os_path_join state_d ''config'' \<rparr>" and tr': "tr' = tr6"
    by simp_all
  from ensure_target_Ok[OF p4] obtain evs4 where e4: "tr4 = tr3 @ evs4" "created_files evs4 = []"
    by blast
  from touch_all_ok[OF p6] obtain evs6 where e6: "tr6 = tr5 @ evs6"
    "created_files evs6 = [os_path_join state_d ''config'', os_path_join state_d ''fstab'',
                     os_path_join state_d ''network_config'', os_path_join state_d ''network_state'']"
    by blast
  let ?evs = "[(Mkdtemp, t), (Mkdir state_d, x2), (Mkdir scratch_d, x3)] @ evs4 @
              [(JsonDump (os_path_join state_d ''config'') config, x5)] @ evs6"
  have "tr' = tr @ ?evs"
    using perform_Ok[OF p1] perform_Ok[OF p2] perform_Ok[OF p3] perform_Ok[OF p5] e4 e6 tr'
    by simp
  moreover have "created_files ?evs =
      [wd_config_file wd, wd_config_file wd, wd_fstab wd, wd_netconf wd, wd_netstate wd]"
    using perform_Ok[OF p5] e4 e6 wd by simp
  moreover have "wd_interfaces wd \<notin> set [wd_config_file wd, wd_config_file wd, wd_fstab wd,
                                          wd_netconf wd, wd_netstate wd]"
    using wd state_paths_distinct[of state_d] by simp
  ultimately show ?thesis by metis
qed

lemma WorkingDir_init_fresh_world:
  "WorkingDir_init fresh_world [] [] =
     (Ok \<lparr> wd_scratch = ''/tmp/tmpx/scratch'', wd_target = ''/tmp/tmpx/target'',
            wd_top = ''/tmp/tmpx'', wd_interfaces = ''/tmp/tmpx/state/interfaces'',
            wd_netconf = ''/tmp/tmpx/state/network_config'',
            wd_netstate = ''/tmp/tmpx/state/network_state'',
            wd_fstab = ''/tmp/tmpx/state/fstab'',
            wd_config_file = ''/tmp/tmpx/state/config'' \<rparr>,
      [(Mkdtemp, RStr ''/tmp/tmpx''), (Mkdir ''/tmp/tmpx/state'', RNone),
       (Mkdir ''/tmp/tmpx/scratch'', RNone),
       (EnsureDir (PStr ''/tmp/tmpx/target''), RNone),
       (Listdir (PStr ''/tmp/tmpx/target''), RLines []),
       (JsonDump ''/tmp/tmpx/state/config'' [], RNone),
       (Touch ''/tmp/tmpx/state/config'', RNone),
       (Touch ''/tmp/tmpx/state/fstab'', RNone),
       (Touch ''/tmp/tmpx/state/network_config'', RNone),
       (Touch ''/tmp/tmpx/state/network_state'', RNone)])"
  by (simp add: WorkingDir_init_def ensure_target_def resolve_target_def install_target_def
      perform_def call_def fresh_world_def os_path_join_def Let_def)

text \<open>
  With the empty configuration, in a world that hands out \<^verbatim>\<open>/tmp/tmpx\<close>: the four files
  created are under \<^verbatim>\<open>/tmp/tmpx/state\<close>, and \<^verbatim>\<open>/tmp/tmpx/state/interfaces\<close> is not
  one of them.
\<close>

theorem WorkingDir_init_created_witness:
  "created_files (snd (WorkingDir_init fresh_world [] [])) =
     [''/tmp/tmpx/state/config'', ''/tmp/tmpx/state/config'', ''/tmp/tmpx/state/fstab'',
      ''/tmp/tmpx/state/network_config'', ''/tmp/tmpx/state/network_state''] \<and>
   ''/tmp/tmpx/state/interfaces'' \<notin> set (created_files (snd (WorkingDir_init fresh_world [] [])))"
  using WorkingDir_init_created[OF WorkingDir_init_fresh_world]
  by (simp add: WorkingDir_init_fresh_world)

section \<open>Properties of histories\<close>

lemma launched_append [simp]: "launched (a @ b) = launched a @ launched b"
  by (simp add: launched_def)

lemma launched_Nil [simp]: "launched [] = []"
  by (simp add: launched_def)

lemma launched_Cons: "launched (x # xs) = launch x @ launched xs"
  by (simp add: launched_def)

lemma teardown_actions_append [simp]:
  "teardown_actions (a @ b) = teardown_actions a @ teardown_actions b"
  by (simp add: teardown_actions_def)

lemma teardown_actions_Nil [simp]: "teardown_actions [] = []"
  by (simp add: teardown_actions_def)

lemma since_append [simp]: "since tr (tr @ evs) = evs"
  by (simp add: since_def)

lemma since_self [simp]: "since tr tr = []"
  by (simp add: since_def)

lemma calm_iff: "calm tr tr' \<longleftrightarrow> (\<exists>evs. tr' = tr @ evs \<and> list_all (\<lambda>ev. plain (fst ev)) evs)"
  by (auto simp: calm_def prefix_def)

lemma silent_iff: "silent tr tr' \<longleftrightarrow> (\<exists>evs. tr' = tr @ evs \<and> launched evs = [])"
  by (auto simp: silent_def prefix_def)

lemma calm_refl [simp]: "calm tr tr"
  by (simp add: calm_iff)

lemma calm_trans: "calm a b \<Longrightarrow> calm b c \<Longrightarrow> calm a c"
  by (auto simp: calm_iff)

lemma calm_step: "plain a \<Longrightarrow> calm tr (tr @ [(a, r)])"
  by (simp add: calm_iff)

lemma calm_logged: "plain a \<Longrightarrow> calm tr (logged a tr)"
  by (simp add: logged_def calm_step)

lemma snd_call: "snd (call orc a tr) = tr @ [(a, orc tr a)]"
  by (simp add: call_def)

lemma snd_perform: "snd (perform orc a tr) = tr @ [(a, orc tr a)]"
  by (cases "orc tr a") (simp_all add: perform_def call_def)

lemma calm_perform: "plain a \<Longrightarrow> calm tr (snd (perform orc a tr))"
  by (simp add: snd_perform calm_step)

lemma calm_perform_logged:
  "plain a \<Longrightarrow> plain b \<Longrightarrow> calm tr (snd (perform orc a (logged b tr)))"
  by (rule calm_trans[OF calm_logged calm_perform])

lemma calm_and_then:
  assumes "calm tr (snd m)" and "\<And>x tr1. calm tr1 (snd (f x tr1))"
  shows "calm tr (snd (and_then m f))"
proof (cases m)
  case (Pair res tr1)
  show ?thesis
  proof (cases res)
    case (Ok x)
    with Pair assms(1) assms(2)[of tr1 x] show ?thesis
      by (auto intro: calm_trans)
  qed (use Pair assms(1) in simp_all)
qed

lemma launch_plain: "plain (fst ev) \<Longrightarrow> launch ev = []"
  by (cases ev; cases "fst ev") (auto simp: plain_def)

lemma launched_plain: "list_all (\<lambda>ev. plain (fst ev)) evs \<Longrightarrow> launched evs = []"
  by (induction evs) (auto simp: launched_Cons launch_plain)

lemma teardown_plain: "list_all (\<lambda>ev. plain (fst ev)) evs \<Longrightarrow> teardown_actions evs = []"
  by (induction evs) (auto simp: teardown_actions_def plain_def)

lemma calm_silent: "calm tr tr' \<Longrightarrow> silent tr tr'"
  by (auto simp: calm_iff silent_iff launched_plain)

lemma calm_events:
  assumes "calm tr tr'"
  obtains evs where "tr' = tr @ evs" "launched evs = []" "teardown_actions evs = []"
  using assms by (auto simp: calm_iff launched_plain teardown_plain)

lemma plain_simps [simp]:
  "plain (EnsureDir p)" "plain (OpenTruncate p)" "plain (AppendLine p s)" "plain (StdoutWrite s)"
  "plain (IsFile p)" "plain (LoadFile p)" "plain (WriteFile a b)" "plain (Which s)"
  "plain (InstallPackages s)" "plain (ReadLines s)" "plain (Subp ss)" "plain Mkdtemp"
  "plain (Mkdir s)" "plain (Listdir p)" "plain (JsonDump s d)" "plain (Touch s)"
  "plain (OpenLog p)" "plain (LogFileWrite p s)" "plain (LogRec l)"
  "plain (NewReportStack a b c)" "plain (ReportStart s)" "plain (ReportFinish s bb)"
  "plain (DumpConfig d)" "plain (LoadReporter d)" "plain (TargetPath s p)" "plain ReportSuccess"
  "plain (ReportFailure e)" "plain (CreateLogTarfile p d)" "plain (GetDdImages p)"
  "plain (GetIscsiDisks d)" "plain (GetZpools d)" "plain (ForkSubp ps)"
  "\<not> plain (Popen n cmd sh env)" "\<not> plain (DoUmount s)" "\<not> plain RestartIscsi"
  "\<not> plain (ZpoolExport s)" "\<not> plain (Rmtree s)"
  by (simp_all add: plain_def)

lemma calm_call_case:
  assumes "plain a"
    and "\<And>e tr'. calm tr' (snd (f e tr'))"
    and "\<And>r tr'. calm tr' (snd (g r tr'))"
  shows "calm tr (snd (case call orc a tr of (RRaise e, tr') \<Rightarrow> f e tr' | (r, tr') \<Rightarrow> g r tr'))"
  by (cases "orc tr a")
     (auto simp: call_def
        intro!: calm_trans[OF calm_step[OF assms(1)] assms(2)]
                calm_trans[OF calm_step[OF assms(1)] assms(3)])

lemma calm_open_install_log: "calm tr (snd (open_install_log orc logfile tr))"
  by (cases "orc tr (OpenLog logfile)")
     (auto simp: open_install_log_def call_def calm_step)

lemma calm_Stage_init: "calm tr (snd (Stage_init orc name commands env rs logfile tr))"
  unfolding Stage_init_def
  by (intro calm_and_then calm_open_install_log)
     (auto split: option.splits intro!: calm_and_then calm_perform)

lemma calm_Stage_write: "calm tr (snd (Stage_write orc st data tr))"
  unfolding Stage_write_def
  by (intro calm_and_then calm_perform)
     (auto split: option.splits intro!: calm_and_then calm_perform)

lemma calm_stream_output: "calm tr (snd (stream_output orc st steps out tr))"
proof (induction steps arbitrary: out tr)
  case Nil
  show ?case by simp
next
  case (Cons step steps)
  obtain data poll where step: "step = (data, poll)" by (cases step)
  show ?case unfolding step
    by (auto intro!: calm_and_then calm_Stage_write Cons.IH)
qed

lemma calm_writeline: "calm tr (snd (writeline orc fname output tr))"
  by (cases "orc tr (AppendLine fname (with_newline output))")
     (auto simp: writeline_def call_def calm_step)

lemma calm_writeline_and_stdout: "calm tr (snd (writeline_and_stdout orc logfile message tr))"
  unfolding writeline_and_stdout_def
  by (intro calm_and_then calm_writeline calm_perform) auto

lemma calm_copy_install_log: "calm tr (snd (copy_install_log orc logfile target p tr))"
  unfolding copy_install_log_def
  by (auto intro!: calm_and_then calm_perform calm_logged calm_perform_logged)

lemma calm_clear_install_log: "calm tr (snd (clear_install_log orc logfile tr))"
proof (cases "os_path_dirname logfile")
  case (Inl e)
  then show ?thesis by (simp add: clear_install_log_def)
next
  case (Inr d)
  have "\<And>tr1. calm tr1 (snd (case call orc (OpenTruncate logfile) tr1 of
                 (RRaise e, tr') \<Rightarrow> if is_Exception e then (Ok (), tr') else (Raise e, tr')
               | (r, tr') \<Rightarrow> (Ok (), tr')))"
    by (rule calm_call_case) auto
  with Inr show ?thesis
    by (auto simp: clear_install_log_def intro!: calm_and_then calm_perform)
qed

lemma calm_touch_all: "calm tr (snd (touch_all orc fs tr))"
  by (induction fs arbitrary: tr) (auto intro!: calm_and_then calm_perform)

lemma calm_ensure_target: "calm tr (snd (ensure_target orc target_d tr))"
  unfolding ensure_target_def
  by (rule calm_call_case) (auto intro!: calm_and_then calm_perform)

lemma calm_WorkingDir_init: "calm tr (snd (WorkingDir_init orc config tr))"
  unfolding WorkingDir_init_def Let_def
  by (intro calm_and_then calm_perform)
     (auto split: sum.splits intro!: calm_and_then calm_perform calm_ensure_target calm_touch_all)

lemma calm_read_grubcfg: "calm tr (snd (read_grubcfg orc p tr))"
  unfolding read_grubcfg_def
  by (intro calm_and_then calm_perform) (auto intro!: calm_and_then calm_perform)

lemma calm_load_entry: "calm tr (snd (load_entry orc target lines tr))"
  unfolding load_entry_def
  by (auto split: sum.splits boot_entry.splits
      intro!: calm_and_then calm_perform calm_logged calm_perform_logged)

lemma calm_apply_kexec: "calm tr (snd (apply_kexec orc kexec target tr))"
  unfolding apply_kexec_def kexec_load_def Let_def
  by (auto split: sum.splits intro!: calm_and_then calm_read_grubcfg calm_load_entry)

lemma calm_apply_power_state: "calm tr (snd (apply_power_state orc pstate tr))"
  unfolding apply_power_state_def
  by (auto split: sum.splits option.splits intro!: calm_and_then calm_perform_logged)

lemma calm_install_failed: "calm tr (snd (install_failed orc cfg logfile error_tarfile e tr))"
  unfolding install_failed_def
  by (intro calm_and_then calm_writeline)
     (auto intro!: calm_and_then calm_perform calm_perform_logged)

lemma calm_install_config: "calm tr (snd (install_config orc cfg tr))"
  unfolding install_config_def Let_def
  by (auto split: sum.splits pyval.splits intro!: calm_and_then calm_perform)

section \<open>Properties of stage runs\<close>

lemma stream_output_ok:
  "stream_output orc st steps out tr = (Ok (output, rc), tr') \<Longrightarrow>
     output = out @ captured steps \<and> exit_code steps = Some rc"
proof (induction steps arbitrary: out tr)
  case Nil
  then show ?case by simp
next
  case (Cons step steps)
  obtain data poll where step: "step = (data, poll)" by (cases step)
  show ?case
  proof (cases "data = [] \<and> poll \<noteq> None")
    case True
    with Cons.prems step show ?thesis
      by (auto simp: captured_def exit_code_def running_def)
  next
    case False
    then have run: "running (data, poll)" by (simp add: running_def)
    from Cons.prems step False obtain tr1 where
      "stream_output orc st steps (out @ data) tr1 = (Ok (output, rc), tr')"
      by (cases "Stage_write orc st data tr"; cases "fst (Stage_write orc st data tr)")
         (auto simp: and_then_def split: if_splits)
    from Cons.IH[OF this] show ?thesis
      using step run by (simp add: captured_def exit_code_def)
  qed
qed

lemma run_process_failure:
  assumes "orc tr (Popen n cmd (\<not> is_list cmd) env) = RProc steps"
    and "stream_output orc st steps [] (tr @ [(Popen n cmd (\<not> is_list cmd) env, RProc steps)])
           = (Ok (output, rc), tr2)"
    and "rc \<noteq> 0"
  shows "run_process orc st n cmd env tr =
           (Raise (ProcessExecutionError (Some output) (Some []) (Some rc) cmd None),
            tr2 @ [(LogRec (Log WARN ''%s command failed'' [PStr n]), RNone)])"
  using assms by (simp add: run_process_def call_def and_then_def logged_def)

lemma run_process_trace:
  "\<exists>evs. snd (run_process orc st n cmd env tr) = tr @ evs \<and> launched evs = [(n, cmd)] \<and>
         teardown_actions evs = []"
proof -
  let ?a = "Popen n cmd (\<not> is_list cmd) env"
  let ?tr1 = "tr @ [(?a, orc tr ?a)]"
  have "calm ?tr1 (snd (run_process orc st n cmd env tr))"
    by (cases "orc tr ?a")
       (auto simp: run_process_def call_def split: prod.splits
          intro!: calm_and_then calm_stream_output calm_logged)
  then obtain evs where "snd (run_process orc st n cmd env tr) = ?tr1 @ evs"
    "launched evs = []" "teardown_actions evs = []"
    by (rule calm_events)
  then show ?thesis
    by (intro exI[of _ "(?a, orc tr ?a) # evs"])
       (simp add: launched_Cons teardown_actions_def)
qed

lemma leave_report_trace:
  "\<exists>evs. snd (leave_report fullname m) = snd m @ evs \<and> launched evs = [] \<and>
         teardown_actions evs = [] \<and> fst (leave_report fullname m) = fst m"
  by (cases m; cases "fst m")
     (auto simp: leave_report_def logged_def launched_Cons teardown_actions_def)

lemma leave_timer_trace:
  "\<exists>evs. snd (leave_timer timed m) = snd m @ evs \<and> launched evs = [] \<and>
         teardown_actions evs = [] \<and> fst (leave_timer timed m) = fst m"
  by (cases m; cases "fst m")
     (auto simp: leave_timer_def logged_def launched_Cons teardown_actions_def)

lemma run_command_falsy:
  assumes "map_of d n = Some cmd" and "\<not> truthy cmd"
  shows "run_command orc st d n tr = (Ok (), tr)"
  using assms by (simp add: run_command_def)

lemma run_command_trace:
  "\<exists>evs. snd (run_command orc st d n tr) = tr @ evs \<and> teardown_actions evs = [] \<and>
     (launched evs = [] \<or> launched evs = planned d n) \<and>
     (fst (run_command orc st d n tr) = Ok () \<longrightarrow> launched evs = planned d n)"
proof (cases "map_of d n")
  case None
  then show ?thesis by (simp add: run_command_def planned_def)
next
  case (Some cmd)
  show ?thesis
  proof (cases "truthy cmd")
    case False
    with Some show ?thesis by (simp add: run_command_def planned_def)
  next
    case True
    then have pl: "planned d n = [(n, cmd)]" using Some by (simp add: planned_def)
    show ?thesis
    proof (cases "describe_cmd cmd")
      case (Inl e)
      with Some True show ?thesis by (simp add: run_command_def)
    next
      case (Inr desc)
      let ?a = "NewReportStack n (''running '' @ [CHR 0x27] @ desc @ [CHR 0x27]) (st_reportstack st)"
      show ?thesis
      proof (cases "raises (orc tr ?a)")
        case r: True
        then obtain e where "orc tr ?a = RRaise e" by (cases "orc tr ?a") auto
        with Some True Inr show ?thesis
          by (simp add: run_command_def perform_raise launched_Cons teardown_actions_def)
      next
        case nr: False
        let ?cur = "orc tr ?a"
        let ?tr1 = "logged (ReportStart (resp_str ?cur)) (tr @ [(?a, ?cur)])"
        let ?m = "run_process orc st n cmd
                    (AList.update ''CURTIN_REPORTSTACK'' (resp_str ?cur) (st_env st)) ?tr1"
        let ?m2 = "leave_report (resp_str ?cur) ?m"
        have rc: "run_command orc st d n tr = leave_timer n ?m2"
          using Some True Inr nr by (simp add: run_command_def perform_ok)
        from run_process_trace obtain evs1 where
          e1: "snd ?m = ?tr1 @ evs1" "launched evs1 = [(n, cmd)]" "teardown_actions evs1 = []"
          by blast
        from leave_report_trace[of "resp_str ?cur" ?m] obtain evs2 where
          e2: "snd ?m2 = snd ?m @ evs2" "launched evs2 = []" "teardown_actions evs2 = []"
          by blast
        from leave_timer_trace[of n ?m2] obtain evs3 where
          e3: "snd (leave_timer n ?m2) = snd ?m2 @ evs3" "launched evs3 = []"
            "teardown_actions evs3 = []"
          by blast
        let ?evs = "[(?a, ?cur), (ReportStart (resp_str ?cur), RNone)] @ evs1 @ evs2 @ evs3"
        have "snd (run_command orc st d n tr) = tr @ ?evs"
          using rc e1 e2 e3 by (simp add: logged_def)
        moreover have "launched ?evs = [(n, cmd)]"
          using e1 e2 e3 by (simp add: launched_Cons)
        moreover have "teardown_actions ?evs = []"
          using e1 e2 e3 by (simp add: teardown_actions_def)
        ultimately show ?thesis using pl by (intro exI[of _ ?evs]) simp
      qed
    qed
  qed
qed

lemma run_commands_trace:
  "\<exists>evs. snd (run_commands orc st d ns tr) = tr @ evs \<and> teardown_actions evs = [] \<and>
     prefix (launched evs) (concat (map (planned d) ns)) \<and>
     (fst (run_commands orc st d ns tr) = Ok () \<longrightarrow> launched evs = concat (map (planned d) ns))"
proof (induction ns arbitrary: tr)
  case Nil
  show ?case by simp
next
  case (Cons n ns)
  from run_command_trace[of orc st d n tr] obtain evs1 where
    e1: "snd (run_command orc st d n tr) = tr @ evs1" and t1: "teardown_actions evs1 = []"
    and p1: "launched evs1 = [] \<or> launched evs1 = planned d n"
    and o1: "fst (run_command orc st d n tr) = Ok () \<longrightarrow> launched evs1 = planned d n"
    by blast
  obtain res tr1 where rc: "run_command orc st d n tr = (res, tr1)" by (cases "run_command orc st d n tr")
  with e1 have tr1: "tr1 = tr @ evs1" by simp
  show ?case
  proof (cases res)
    case (Ok u)
    from Cons.IH[of tr1] obtain evs2 where
      e2: "snd (run_commands orc st d ns tr1) = tr1 @ evs2" and t2: "teardown_actions evs2 = []"
      and p2: "prefix (launched evs2) (concat (map (planned d) ns))"
      and o2: "fst (run_commands orc st d ns tr1) = Ok () \<longrightarrow>
                 launched evs2 = concat (map (planned d) ns)"
      by blast
    from o1 rc Ok have p1': "launched evs1 = planned d n" by simp
    have "snd (run_commands orc st d (n # ns) tr) = tr @ (evs1 @ evs2)"
      using rc Ok e2 tr1 by simp
    moreover have "prefix (launched (evs1 @ evs2)) (concat (map (planned d) (n # ns)))"
      using p1' p2 by simp
    moreover have "fst (run_commands orc st d (n # ns) tr) = Ok () \<longrightarrow>
        launched (evs1 @ evs2) = concat (map (planned d) (n # ns))"
      using rc Ok o2 p1' by simp
    moreover have "teardown_actions (evs1 @ evs2) = []" using t1 t2 by simp
    ultimately show ?thesis by blast
  next
    case (Raise e)
    have "snd (run_commands orc st d (n # ns) tr) = tr @ evs1"
      using rc Raise tr1 by simp
    moreover have "prefix (launched evs1) (concat (map (planned d) (n # ns)))"
      using p1 by auto
    moreover have "fst (run_commands orc st d (n # ns) tr) \<noteq> Ok ()"
      using rc Raise by simp
    ultimately show ?thesis using t1 by blast
  next
    case Diverge
    have "snd (run_commands orc st d (n # ns) tr) = tr @ evs1"
      using rc Diverge tr1 by simp
    moreover have "prefix (launched evs1) (concat (map (planned d) (n # ns)))"
      using p1 by auto
    moreover have "fst (run_commands orc st d (n # ns) tr) \<noteq> Ok ()"
      using rc Diverge by simp
    ultimately show ?thesis using t1 by blast
  qed
qed

lemma sorted_keys_strict: "sorted_wrt (<) (sort (keys d))"
proof -
  have "distinct (sort (keys d))" by (simp add: keys_def)
  moreover have "sorted (sort (keys d))" by simp
  ultimately show ?thesis by (simp add: strict_sorted_iff)
qed

lemma Stage_run_trace:
  "\<exists>evs. snd (Stage_run orc st tr) = tr @ evs \<and> teardown_actions evs = [] \<and>
     (\<forall>d. st_commands st = PDict d \<longrightarrow>
        prefix (launched evs) (command_plan d) \<and>
        (fst (Stage_run orc st tr) = Ok () \<longrightarrow> launched evs = command_plan d)) \<and>
     ((\<forall>d. st_commands st \<noteq> PDict d) \<longrightarrow> evs = [] \<and> fst (Stage_run orc st tr) \<noteq> Ok ())"
proof (cases "st_commands st")
  case (PDict d)
  with run_commands_trace[of orc st d "sort (keys d)" tr] show ?thesis
    by (auto simp: Stage_run_def command_plan_def)
qed (simp_all add: Stage_run_def)

lemma Stage_init_commands:
  "Stage_init orc name commands env rs logfile tr = (Ok st, tr') \<Longrightarrow> st_commands st = commands"
  unfolding Stage_init_def
  by (cases "open_install_log orc (if logfile = PNone then PStr INSTALL_LOG else logfile) tr";
      cases "fst (open_install_log orc (if logfile = PNone then PStr INSTALL_LOG else logfile) tr)";
      cases rs)
     (auto simp: and_then_def split: prod.splits outcome.splits)

lemma stage_body_trace:
  "\<exists>evs. snd (and_then (Stage_init orc name (cfg_get cfg (py_str name @ ''_commands'') (PDict []))
                 env1 rs logfile tr0) (\<lambda>st tr.
     and_then (Stage_run orc st tr) (\<lambda>_ tr. (Ok (env' :: (string \<times> string) list), tr)))) = tr0 @ evs \<and>
     teardown_actions evs = [] \<and> prefix (launched evs) (stage_plan cfg name) \<and>
     (is_Ok (fst (and_then (Stage_init orc name (cfg_get cfg (py_str name @ ''_commands'') (PDict []))
                 env1 rs logfile tr0) (\<lambda>st tr.
     and_then (Stage_run orc st tr) (\<lambda>_ tr. (Ok (env' :: (string \<times> string) list), tr))))) \<longrightarrow>
        launched evs = stage_plan cfg name)"
  (is "\<exists>evs. snd ?body = tr0 @ evs \<and> _ \<and> _ \<and> (is_Ok (fst ?body) \<longrightarrow> _)")
proof -
  let ?cmds = "cfg_get cfg (py_str name @ ''_commands'') (PDict [])"
  let ?m = "Stage_init orc name ?cmds env1 rs logfile tr0"
  from calm_Stage_init[of tr0 orc name ?cmds env1 rs logfile] obtain evs0 where
    e0: "snd ?m = tr0 @ evs0" "launched evs0 = []" "teardown_actions evs0 = []"
    by (rule calm_events)
  obtain res tr1 where m: "?m = (res, tr1)" by (cases ?m)
  with e0 have tr1: "tr1 = tr0 @ evs0" by simp
  show ?thesis
  proof (cases res)
    case (Ok st)
    from Stage_init_commands[OF m[unfolded Ok]] have sc: "st_commands st = ?cmds" .
    from Stage_run_trace[of orc st tr1] obtain evs1 where
      e1: "snd (Stage_run orc st tr1) = tr1 @ evs1" "teardown_actions evs1 = []"
      and d1: "\<forall>d. st_commands st = PDict d \<longrightarrow>
                 prefix (launched evs1) (command_plan d) \<and>
                 (fst (Stage_run orc st tr1) = Ok () \<longrightarrow> launched evs1 = command_plan d)"
      and n1: "(\<forall>d. st_commands st \<noteq> PDict d) \<longrightarrow> evs1 = [] \<and> fst (Stage_run orc st tr1) \<noteq> Ok ()"
      by blast
    have b: "?body =
               and_then (Stage_run orc st tr1) (\<lambda>_ tr. (Ok env', tr))"
      using m Ok by simp
    have sndb: "snd (?body) = tr0 @ (evs0 @ evs1)"
      using b e1 tr1
      by (cases "Stage_run orc st tr1"; cases "fst (Stage_run orc st tr1)") (auto simp: and_then_def)
    have okb: "is_Ok (fst (?body)) \<longleftrightarrow>
                 fst (Stage_run orc st tr1) = Ok ()"
      using b
      by (cases "Stage_run orc st tr1"; cases "fst (Stage_run orc st tr1)") (auto simp: and_then_def)
    have pl: "prefix (launched evs1) (stage_plan cfg name) \<and>
              (fst (Stage_run orc st tr1) = Ok () \<longrightarrow> launched evs1 = stage_plan cfg name)"
    proof (cases "\<exists>d. ?cmds = PDict d")
      case True
      then obtain d where d: "?cmds = PDict d" by blast
      with d1 sc show ?thesis by (simp add: stage_plan_def)
    next
      case False
      with n1 sc show ?thesis by simp
    qed
    show ?thesis
      using sndb okb pl e0 e1 by (intro exI[of _ "evs0 @ evs1"]) simp
  next
    case (Raise e)
    then have "?body = (Raise e, tr1)"
      using m by simp
    with e0 tr1 show ?thesis by (intro exI[of _ evs0]) simp
  next
    case Diverge
    then have "?body = (Diverge, tr1)"
      using m by simp
    with e0 tr1 show ?thesis by (intro exI[of _ evs0]) simp
  qed
qed

lemma run_stage_trace:
  "\<exists>evs. snd (run_stage orc args cfg logfile env name tr) = tr @ evs \<and>
     teardown_actions evs = [] \<and> prefix (launched evs) (stage_plan cfg name) \<and>
     (is_Ok (fst (run_stage orc args cfg logfile env name tr)) \<longrightarrow>
        launched evs = stage_plan cfg name)"
proof (cases "stage_description name")
  case (Inl e)
  then show ?thesis by (simp add: run_stage_def)
next
  case (Inr desc)
  let ?a = "NewReportStack (''stage-'' @ py_str name) desc (args_reportstack args)"
  show ?thesis
  proof (cases "raises (orc tr ?a)")
    case True
    then obtain e where "orc tr ?a = RRaise e" by (cases "orc tr ?a") auto
    with Inr show ?thesis
      by (simp add: run_stage_def perform_raise launched_Cons teardown_actions_def)
  next
    case False
    let ?rs = "orc tr ?a"
    let ?env' = "AList.update ''CURTIN_REPORTSTACK'' (resp_str ?rs) env"
    let ?tr0 = "logged (ReportStart (resp_str ?rs)) (tr @ [(?a, ?rs)])"
    let ?body = "and_then (Stage_init orc name (cfg_get cfg (py_str name @ ''_commands'') (PDict []))
                   ?env' (Some (resp_str ?rs)) logfile ?tr0) (\<lambda>st tr.
                 and_then (Stage_run orc st tr) (\<lambda>_ tr. (Ok ?env', tr)))"
    let ?m1 = "leave_timer (''stage_'' @ py_str name) ?body"
    have rs: "run_stage orc args cfg logfile env name tr = leave_report (resp_str ?rs) ?m1"
      using Inr False by (simp add: run_stage_def perform_ok)
    from stage_body_trace[of orc name cfg ?env' "Some (resp_str ?rs)" logfile ?tr0 ?env']
    obtain evs1 where
      e1: "snd ?body = ?tr0 @ evs1" "teardown_actions evs1 = []"
        "prefix (launched evs1) (stage_plan cfg name)"
        "is_Ok (fst ?body) \<longrightarrow> launched evs1 = stage_plan cfg name"
      by blast
    from leave_timer_trace[of "''stage_'' @ py_str name" ?body] obtain evs2 where
      e2: "snd ?m1 = snd ?body @ evs2" "launched evs2 = []" "teardown_actions evs2 = []"
        "fst ?m1 = fst ?body"
      by blast
    from leave_report_trace[of "resp_str ?rs" ?m1] obtain evs3 where
      e3: "snd (leave_report (resp_str ?rs) ?m1) = snd ?m1 @ evs3" "launched evs3 = []"
        "teardown_actions evs3 = []" "fst (leave_report (resp_str ?rs) ?m1) = fst ?m1"
      by blast
    let ?evs = "[(?a, ?rs), (ReportStart (resp_str ?rs), RNone)] @ evs1 @ evs2 @ evs3"
    have "snd (run_stage orc args cfg logfile env name tr) = tr @ ?evs"
      using rs e1 e2 e3 by (simp add: logged_def)
    moreover have "launched ?evs = launched evs1"
      using e2 e3 by (simp add: launched_Cons)
    moreover have "teardown_actions ?evs = []"
      using e1 e2 e3 by (simp add: teardown_actions_def)
    moreover have "fst (run_stage orc args cfg logfile env name tr) = fst ?body"
      using rs e2 e3 by simp
    ultimately show ?thesis using e1 by (intro exI[of _ ?evs]) simp
  qed
qed

lemma run_stages_trace:
  "\<exists>evs. snd (run_stages orc args cfg logfile env names tr) = tr @ evs \<and>
     teardown_actions evs = [] \<and>
     prefix (launched evs) (concat (map (stage_plan cfg) names)) \<and>
     (fst (run_stages orc args cfg logfile env names tr) = Ok () \<longrightarrow>
        launched evs = concat (map (stage_plan cfg) names))"
proof (induction names arbitrary: env tr)
  case Nil
  show ?case by simp
next
  case (Cons name names)
  from run_stage_trace[of orc args cfg logfile env name tr] obtain evs1 where
    e1: "snd (run_stage orc args cfg logfile env name tr) = tr @ evs1"
    and t1: "teardown_actions evs1 = []"
    and p1: "prefix (launched evs1) (stage_plan cfg name)"
    and o1: "is_Ok (fst (run_stage orc args cfg logfile env name tr)) \<longrightarrow>
               launched evs1 = stage_plan cfg name"
    by blast
  obtain res tr1 where rc: "run_stage orc args cfg logfile env name tr = (res, tr1)"
    by (cases "run_stage orc args cfg logfile env name tr")
  with e1 have tr1: "tr1 = tr @ evs1" by simp
  show ?case
  proof (cases res)
    case (Ok env')
    from Cons.IH[of env' tr1] obtain evs2 where
      e2: "snd (run_stages orc args cfg logfile env' names tr1) = tr1 @ evs2"
      and t2: "teardown_actions evs2 = []"
      and p2: "prefix (launched evs2) (concat (map (stage_plan cfg) names))"
      and o2: "fst (run_stages orc args cfg logfile env' names tr1) = Ok () \<longrightarrow>
                 launched evs2 = concat (map (stage_plan cfg) names)"
      by blast
    from o1 rc Ok have p1': "launched evs1 = stage_plan cfg name" by simp
    have "snd (run_stages orc args cfg logfile env (name # names) tr) = tr @ (evs1 @ evs2)"
      using rc Ok e2 tr1 by simp
    moreover have "prefix (launched (evs1 @ evs2)) (concat (map (stage_plan cfg) (name # names)))"
      using p1' p2 by simp
    moreover have "fst (run_stages orc args cfg logfile env (name # names) tr) = Ok () \<longrightarrow>
        launched (evs1 @ evs2) = concat (map (stage_plan cfg) (name # names))"
      using rc Ok o2 p1' by simp
    moreover have "teardown_actions (evs1 @ evs2) = []" using t1 t2 by simp
    ultimately show ?thesis by blast
  next
    case (Raise e)
    have "snd (run_stages orc args cfg logfile env (name # names) tr) = tr @ evs1"
      using rc Raise tr1 by simp
    moreover have "prefix (launched evs1) (concat (map (stage_plan cfg) (name # names)))"
      using p1 by (simp add: prefix_def) (metis append.assoc)
    moreover have "fst (run_stages orc args cfg logfile env (name # names) tr) \<noteq> Ok ()"
      using rc Raise by simp
    ultimately show ?thesis using t1 by blast
  next
    case Diverge
    have "snd (run_stages orc args cfg logfile env (name # names) tr) = tr @ evs1"
      using rc Diverge tr1 by simp
    moreover have "prefix (launched evs1) (concat (map (stage_plan cfg) (name # names)))"
      using p1 by (simp add: prefix_def) (metis append.assoc)
    moreover have "fst (run_stages orc args cfg logfile env (name # names) tr) \<noteq> Ok ()"
      using rc Diverge by simp
    ultimately show ?thesis using t1 by blast
  qed
qed

lemma planned_names: "map fst (planned d n) = (if planned d n = [] then [] else [n])"
  by (auto simp: planned_def split: option.splits)

lemma map_fst_concat_planned:
  "map fst (concat (map (planned d) ns)) = filter (\<lambda>n. planned d n \<noteq> []) ns"
  by (induction ns) (auto simp: planned_names)

lemma command_plan_sorted: "sorted_wrt (<) (map fst (command_plan d))"
  unfolding command_plan_def map_fst_concat_planned
  by (rule sorted_wrt_filter) (rule sorted_keys_strict)

lemma command_plan_set:
  "(n, cmd) \<in> set (command_plan d) \<longleftrightarrow> map_of d n = Some cmd \<and> truthy cmd"
proof -
  have "map_of d n = Some cmd \<Longrightarrow> n \<in> set (keys d)"
    by (auto simp: keys_def dest: map_of_SomeD intro: rev_image_eqI)
  then show ?thesis
    by (auto simp: command_plan_def planned_def split: option.splits if_splits)
qed

section \<open>Properties of the order of commands\<close>

text \<open>
  Claim C9. For a stage whose commands are the dictionary \<open>d\<close>, in every world: the commands
  launched by \<^verbatim>\<open>Stage.run\<close>, in the order of their launch, are the beginning of
  \<open>command_plan d\<close>, and the whole of it when the run returns; the names of that list
  ascend strictly, and it holds a name with its command exactly when the dictionary maps the
  name to that command and the command is truthy. The commands launched by the loop over
  the stages are the beginning of the plans of the stages, one after the other in the order
  of the list, and the whole of it when the loop returns. A round of the loop for a name
  whose command is falsy returns with the history as it was: nothing is run and nothing is
  logged.
\<close>

theorem stage_commands_in_order:
  "(st_commands st = PDict d \<longrightarrow>
      prefix tr (snd (Stage_run orc st tr)) \<and>
      prefix (launched (since tr (snd (Stage_run orc st tr)))) (command_plan d) \<and>
      (fst (Stage_run orc st tr) = Ok () \<longrightarrow>
         launched (since tr (snd (Stage_run orc st tr))) = command_plan d)) \<and>
   sorted_wrt (<) (map fst (command_plan d)) \<and>
   (\<forall>m c. (m, c) \<in> set (command_plan d) \<longleftrightarrow> map_of d m = Some c \<and> truthy c) \<and>
   prefix tr (snd (run_stages orc args cfg logfile env names tr)) \<and>
   prefix (launched (since tr (snd (run_stages orc args cfg logfile env names tr))))
     (concat (map (stage_plan cfg) names)) \<and>
   (fst (run_stages orc args cfg logfile env names tr) = Ok () \<longrightarrow>
      launched (since tr (snd (run_stages orc args cfg logfile env names tr))) =
        concat (map (stage_plan cfg) names)) \<and>
   (map_of d n = Some cmd \<and> \<not> truthy cmd \<longrightarrow> run_command orc st d n tr = (Ok (), tr))"
proof -
  have a: "st_commands st = PDict d \<longrightarrow>
      prefix tr (snd (Stage_run orc st tr)) \<and>
      prefix (launched (since tr (snd (Stage_run orc st tr)))) (command_plan d) \<and>
      (fst (Stage_run orc st tr) = Ok () \<longrightarrow>
         launched (since tr (snd (Stage_run orc st tr))) = command_plan d)"
  proof
    assume sc: "st_commands st = PDict d"
    from Stage_run_trace[of orc st tr] obtain evs where
      "snd (Stage_run orc st tr) = tr @ evs"
      "\<forall>d. st_commands st = PDict d \<longrightarrow>
         prefix (launched evs) (command_plan d) \<and>
         (fst (Stage_run orc st tr) = Ok () \<longrightarrow> launched evs = command_plan d)"
      by blast
    with sc show "prefix tr (snd (Stage_run orc st tr)) \<and>
      prefix (launched (since tr (snd (Stage_run orc st tr)))) (command_plan d) \<and>
      (fst (Stage_run orc st tr) = Ok () \<longrightarrow>
         launched (since tr (snd (Stage_run orc st tr))) = command_plan d)"
      by simp
  qed
  have b: "sorted_wrt (<) (map fst (command_plan d))" by (rule command_plan_sorted)
  have c: "\<forall>m c. (m, c) \<in> set (command_plan d) \<longleftrightarrow> map_of d m = Some c \<and> truthy c"
    by (simp add: command_plan_set)
  from run_stages_trace[of orc args cfg logfile env names tr] obtain evs where
    "snd (run_stages orc args cfg logfile env names tr) = tr @ evs"
    "prefix (launched evs) (concat (map (stage_plan cfg) names))"
    "fst (run_stages orc args cfg logfile env names tr) = Ok () \<longrightarrow>
        launched evs = concat (map (stage_plan cfg) names)"
    by blast
  then have e: "prefix tr (snd (run_stages orc args cfg logfile env names tr)) \<and>
     prefix (launched (since tr (snd (run_stages orc args cfg logfile env names tr))))
       (concat (map (stage_plan cfg) names)) \<and>
     (fst (run_stages orc args cfg logfile env names tr) = Ok () \<longrightarrow>
        launched (since tr (snd (run_stages orc args cfg logfile env names tr))) =
          concat (map (stage_plan cfg) names))"
    by simp
  have f: "map_of d n = Some cmd \<and> \<not> truthy cmd \<longrightarrow> run_command orc st d n tr = (Ok (), tr)"
    by (simp add: run_command_falsy)
  from a b c e f show ?thesis by blast
qed

lemma early_stage_run: "fst (Stage_run stage_world early_stage []) = Ok ()"
  by code_simp

lemma two_stages_run:
  "fst (run_stages stage_world sample_args two_stages PNone []
          [PStr ''early'', PStr ''late''] []) = Ok ()"
  by code_simp

lemma early_commands_plan:
  "command_plan early_commands =
     [(''a'', PStr ''echo a''), (''b'', PList [PStr ''echo'', PStr ''b''])]"
  by code_simp

lemma two_stages_plan:
  "concat (map (stage_plan two_stages) [PStr ''early'', PStr ''late'']) =
     [(''a'', PStr ''echo a''), (''b'', PList [PStr ''echo'', PStr ''b'']),
      (''z'', PList [PStr ''true''])]"
  by code_simp

text \<open>
  The theorem on a stage with the commands \<^verbatim>\<open>b\<close>, \<^verbatim>\<open>a\<close> and \<^verbatim>\<open>c\<close>, the last one
  \<^verbatim>\<open>None\<close>, and on the stages \<^verbatim>\<open>early\<close> and \<^verbatim>\<open>late\<close>, in a world where every command
  exits with 0.
\<close>

theorem stage_commands_in_order_witness:
  "launched (snd (Stage_run stage_world early_stage [])) =
     [(''a'', PStr ''echo a''), (''b'', PList [PStr ''echo'', PStr ''b''])] \<and>
   launched (snd (run_stages stage_world sample_args two_stages PNone []
                    [PStr ''early'', PStr ''late''] [])) =
     [(''a'', PStr ''echo a''), (''b'', PList [PStr ''echo'', PStr ''b'']),
      (''z'', PList [PStr ''true''])] \<and>
   run_command stage_world early_stage early_commands ''c'' [] = (Ok (), [])"
proof -
  have sc: "st_commands early_stage = PDict early_commands" by (simp add: early_stage_def)
  have fc: "map_of early_commands ''c'' = Some PNone \<and> \<not> truthy PNone"
    by (simp add: early_commands_def)
  have since_Nil: "\<And>x. since [] x = x" by (simp add: since_def)
  note T = stage_commands_in_order[of early_stage early_commands "[]" stage_world sample_args
      two_stages PNone "[]" "[PStr ''early'', PStr ''late'']" "''c''" PNone]
  from T sc early_stage_run
  have A: "launched (since [] (snd (Stage_run stage_world early_stage []))) =
             command_plan early_commands"
    by blast
  from T two_stages_run
  have B: "launched (since [] (snd (run_stages stage_world sample_args two_stages PNone []
                                      [PStr ''early'', PStr ''late''] []))) =
             concat (map (stage_plan two_stages) [PStr ''early'', PStr ''late''])"
    by blast
  from T fc
  have C: "run_command stage_world early_stage early_commands ''c'' [] = (Ok (), [])"
    by blast
  from A[unfolded since_Nil early_commands_plan] B[unfolded since_Nil two_stages_plan] C
  show ?thesis by blast
qed

end
